theory Spec2Isabelle
  imports Main
begin

section \<open>Shared vocabulary of the resource handlers\<close>

text \<open>
  Every handler of the provider has the Go signature
  \<^verbatim>\<open>func(d *pluginsdk.ResourceData, meta interface{}) error\<close>.
  The model makes its effects explicit: the handler receives the local resource data and
  the responses of the remote calls it performs, in the order in which it performs them,
  and returns an \<open>outcome\<close>: the returned error, the resource data afterwards, the payload
  handed to the mutating remote call (when that call was reached) and the timeout from
  which the context of the operation was derived.
\<close>

subsection \<open>Errors\<close>

text \<open>
  \<open>Errorf\<close> is \<^verbatim>\<open>fmt.Errorf(format, args...)\<close> with the format string of the source and the
  arguments in order; \<open>ImportAsExistsError\<close> is \<^verbatim>\<open>tf.ImportAsExistsError(resourceName, id)\<close>;
  \<open>Propagated\<close> is the error of a callee that the handler returns as it is
  (\<^verbatim>\<open>return err\<close>), given by its message; \<open>RuntimePanic\<close> is the Go runtime panic of
  dereferencing a nil pointer or of a failed type assertion, which ends the handler
  without a return value.
\<close>

datatype error =
    Errorf string "string list"
  | ImportAsExistsError string string
  | Propagated string
  | RuntimePanic

subsection \<open>Local resource data\<close>

datatype TimeoutKey = TimeoutCreate | TimeoutRead | TimeoutUpdate | TimeoutDelete

datatype attr =
    AString string
  | AStringPtr "string option"
  | ABoolPtr "bool option"
  | AStringsPtr "string list option"
  | AStrings "string list"

text \<open>
  \<open>rd_Id\<close> is \<^verbatim>\<open>d.Id()\<close>; \<open>rd_String\<close>, \<open>rd_Bool\<close>, \<open>rd_List\<close> and \<open>rd_Map\<close> are
  \<^verbatim>\<open>d.Get(key)\<close> at a key whose schema type is string, bool, list of strings and map;
  \<open>rd_Timeout\<close> is \<^verbatim>\<open>d.Timeout(key)\<close> in seconds; \<open>rd_State\<close> holds what \<^verbatim>\<open>d.Set\<close> wrote.
\<close>

record ResourceData =
  rd_Id :: string
  rd_IsNewResource :: bool
  rd_String :: "string \<Rightarrow> string"
  rd_Bool :: "string \<Rightarrow> bool"
  rd_List :: "string \<Rightarrow> string list"
  rd_Map :: "string \<Rightarrow> (string \<times> string) list"
  rd_Timeout :: "TimeoutKey \<Rightarrow> nat"
  rd_State :: "string \<rightharpoonup> attr"

definition SetId :: "ResourceData \<Rightarrow> string \<Rightarrow> ResourceData" where
  "SetId d v = d\<lparr>rd_Id := v\<rparr>"

definition Set_attr :: "ResourceData \<Rightarrow> string \<Rightarrow> attr \<Rightarrow> ResourceData" where
  "Set_attr d k v = d\<lparr>rd_State := (rd_State d)(k \<mapsto> v)\<rparr>"

subsection \<open>Timeouts\<close>

text \<open>
  Modelled from the spec: package \<^verbatim>\<open>internal/timeouts\<close> is not among the sources.
  Following section 5 of the specification (every operation is bounded by a timeout that
  is configured per operation kind), \<^verbatim>\<open>timeouts.ForX(ctx, d)\<close> bounds the context by the
  timeout that \<open>d\<close> holds for operation kind \<open>X\<close>; \<^verbatim>\<open>ForCreateUpdate\<close> chooses between the
  create and the update timeout by \<^verbatim>\<open>d.IsNewResource()\<close>.
\<close>

definition ForCreate :: "ResourceData \<Rightarrow> nat" where
  "ForCreate d = rd_Timeout d TimeoutCreate"

definition ForRead :: "ResourceData \<Rightarrow> nat" where
  "ForRead d = rd_Timeout d TimeoutRead"

definition ForUpdate :: "ResourceData \<Rightarrow> nat" where
  "ForUpdate d = rd_Timeout d TimeoutUpdate"

definition ForDelete :: "ResourceData \<Rightarrow> nat" where
  "ForDelete d = rd_Timeout d TimeoutDelete"

definition ForCreateUpdate :: "ResourceData \<Rightarrow> nat" where
  "ForCreateUpdate d = (if rd_IsNewResource d then ForCreate d else ForUpdate d)"

text \<open>
  The timeouts every resource of the sources declares but the resource group:
  \<^verbatim>\<open>Create: 30 min, Read: 5 min, Update: 30 min, Delete: 30 min\<close>.
\<close>

fun DefaultTimeouts :: "TimeoutKey \<Rightarrow> nat" where
  "DefaultTimeouts TimeoutCreate = 30 * 60"
| "DefaultTimeouts TimeoutRead = 5 * 60"
| "DefaultTimeouts TimeoutUpdate = 30 * 60"
| "DefaultTimeouts TimeoutDelete = 30 * 60"

subsection \<open>Remote responses\<close>

text \<open>
  A remote read \<^verbatim>\<open>resp, err := client.Get(...)\<close> yields the decoded value, the status
  code of the HTTP response and the error.
\<close>

record 'a response =
  resp_value :: 'a
  resp_StatusCode :: nat
  resp_err :: "string option"

text \<open>
  Modelled from the spec: \<^verbatim>\<open>utils.ResponseWasNotFound\<close> is not among the sources.
  Section 6 of the specification: responses include a "not found" status that is
  distinguishable from the other 4xx/5xx statuses; it is HTTP status 404.
\<close>

definition ResponseWasNotFound :: "'a response \<Rightarrow> bool" where
  "ResponseWasNotFound r = (resp_StatusCode r = 404)"

subsection \<open>Parsed resource identifiers\<close>

text \<open>
  The result of \<^verbatim>\<open>azure.ParseAzureResourceID\<close>. The parser itself is not among the
  sources: every handler that calls it takes it as its first argument.
\<close>

record ResourceID =
  rid_ResourceGroup :: string
  rid_Path :: "string \<rightharpoonup> string"

type_synonym AzureIDParser = "string \<Rightarrow> string + ResourceID"

text \<open>Indexing a Go map of strings yields the empty string at a missing key.\<close>

definition PathAt :: "ResourceID \<Rightarrow> string \<Rightarrow> string" where
  "PathAt r k = (case rid_Path r k of None \<Rightarrow> [] | Some v \<Rightarrow> v)"

subsection \<open>Outcome of a handler\<close>

record 'p outcome =
  ret :: "error option"
  rdata :: ResourceData
  sent :: "'p option"
  deadline :: nat

definition failed :: "nat \<Rightarrow> ResourceData \<Rightarrow> error \<Rightarrow> 'p outcome" where
  "failed ctx d e = \<lparr>ret = Some e, rdata = d, sent = None, deadline = ctx\<rparr>"

definition done_ok :: "nat \<Rightarrow> ResourceData \<Rightarrow> 'p outcome" where
  "done_ok ctx d = \<lparr>ret = None, rdata = d, sent = None, deadline = ctx\<rparr>"

subsection \<open>Go's strings.Split at a one-character separator\<close>

fun strings_Split :: "string \<Rightarrow> char \<Rightarrow> string list" where
  "strings_Split [] sep = [[]]"
| "strings_Split (c # cs) sep =
     (if c = sep then [] # strings_Split cs sep
      else (case strings_Split cs sep of
              [] \<Rightarrow> [[c]]
            | s # ss \<Rightarrow> (c # s) # ss))"

section \<open>Network interface / backend address pool association\<close>

record BackendAddressPool =
  bap_ID :: "string option"
  bap_Name :: "string option"

record InterfaceIPConfigurationPropertiesFormat =
  LoadBalancerBackendAddressPools :: "BackendAddressPool list option"

record InterfaceIPConfiguration =
  ipc_Name :: "string option"
  ipc_Properties :: "InterfaceIPConfigurationPropertiesFormat option"

record InterfacePropertiesFormat =
  IPConfigurations :: "InterfaceIPConfiguration list option"

record Interface =
  nic_ID :: "string option"
  nic_Properties :: "InterfacePropertiesFormat option"

type_synonym FindIPConfiguration =
  "InterfaceIPConfiguration list option \<Rightarrow> string \<Rightarrow> InterfaceIPConfiguration option"

type_synonym UpdateIPConfiguration =
  "InterfaceIPConfiguration \<Rightarrow> InterfaceIPConfiguration list option
     \<Rightarrow> InterfaceIPConfiguration list option"

text \<open>
  The identifier of the association, line 115 of the source:
  \<^verbatim>\<open>fmt.Sprintf("%s/ipConfigurations/%s|%s", networkInterfaceId, ipConfigurationName, backendAddressPoolId)\<close>.
\<close>

definition associationResourceId :: "string \<Rightarrow> string \<Rightarrow> string \<Rightarrow> string" where
  "associationResourceId networkInterfaceId ipConfigurationName backendAddressPoolId =
     networkInterfaceId @ ''/ipConfigurations/'' @ ipConfigurationName @ ''|'' @ backendAddressPoolId"

text \<open>
  The decoding that Read (lines 155 to 168) and Delete (lines 233 to 246) both start with.
  The result is \<open>(ipConfigurationName, networkInterfaceName, resourceGroup, backendAddressPoolId)\<close>.
\<close>

definition parseAssociationId ::
  "AzureIDParser \<Rightarrow> string \<Rightarrow> error + (string \<times> string \<times> string \<times> string)" where
  "parseAssociationId ParseAzureResourceID ident =
     (let splitId = strings_Split ident (CHR ''|'') in
      if length splitId \<noteq> 2 then
        Inl (Errorf ''Expected ID to be in the format {networkInterfaceId}/ipConfigurations/{ipConfigurationName}|{backendAddressPoolId} but got %q'' [ident])
      else
        (case ParseAzureResourceID (splitId ! 0) of
           Inl err \<Rightarrow> Inl (Propagated err)
         | Inr nicID \<Rightarrow>
             Inr (PathAt nicID ''ipConfigurations'', PathAt nicID ''networkInterfaces'',
                  rid_ResourceGroup nicID, splitId ! 1)))"

text \<open>The loop of Create, lines 116 to 126, over the pools the IP configuration has.\<close>

fun appendExistingPools ::
  "string \<Rightarrow> string \<Rightarrow> BackendAddressPool list \<Rightarrow> BackendAddressPool list
     \<Rightarrow> error + BackendAddressPool list" where
  "appendExistingPools resourceId backendAddressPoolId [] pools = Inr pools"
| "appendExistingPools resourceId backendAddressPoolId (existingPool # rest) pools =
     (case bap_ID existingPool of
        None \<Rightarrow> appendExistingPools resourceId backendAddressPoolId rest pools
      | Some ident \<Rightarrow>
          if ident = backendAddressPoolId then
            Inl (ImportAsExistsError ''azurerm_network_interface_backend_address_pool_association'' resourceId)
          else appendExistingPools resourceId backendAddressPoolId rest (pools @ [existingPool]))"

text \<open>The loop of Read, lines 202 to 211.\<close>

fun poolFound :: "string \<Rightarrow> BackendAddressPool list \<Rightarrow> bool" where
  "poolFound backendAddressPoolId [] = False"
| "poolFound backendAddressPoolId (pool # rest) =
     (case bap_ID pool of
        None \<Rightarrow> poolFound backendAddressPoolId rest
      | Some ident \<Rightarrow> if ident = backendAddressPoolId then True else poolFound backendAddressPoolId rest)"

text \<open>The loop of Delete, lines 283 to 291.\<close>

fun retainOtherPools ::
  "string \<Rightarrow> BackendAddressPool list \<Rightarrow> BackendAddressPool list \<Rightarrow> BackendAddressPool list" where
  "retainOtherPools backendAddressPoolId [] backendAddressPools = backendAddressPools"
| "retainOtherPools backendAddressPoolId (pool # rest) backendAddressPools =
     (case bap_ID pool of
        None \<Rightarrow> retainOtherPools backendAddressPoolId rest backendAddressPools
      | Some ident \<Rightarrow>
          if ident \<noteq> backendAddressPoolId
          then retainOtherPools backendAddressPoolId rest (backendAddressPools @ [pool])
          else retainOtherPools backendAddressPoolId rest backendAddressPools)"

definition resourceNetworkInterfaceBackendAddressPoolAssociationRead ::
  "AzureIDParser \<Rightarrow> FindIPConfiguration \<Rightarrow> ResourceData \<Rightarrow> Interface response
     \<Rightarrow> Interface outcome" where
  "resourceNetworkInterfaceBackendAddressPoolAssociationRead ParseAzureResourceID
       FindNetworkInterfaceIPConfiguration d read =
     (let ctx = ForRead d in
      case parseAssociationId ParseAzureResourceID (rd_Id d) of
        Inl err \<Rightarrow> failed ctx d err
      | Inr (ipConfigurationName, networkInterfaceName, resourceGroup, backendAddressPoolId) \<Rightarrow>
         (case resp_err read of
            Some err \<Rightarrow>
              if ResponseWasNotFound read then done_ok ctx (SetId d [])
              else failed ctx d
                (Errorf ''Error retrieving Network Interface %q (Resource Group %q): %+v''
                   [networkInterfaceName, resourceGroup, err])
          | None \<Rightarrow>
             (case nic_Properties (resp_value read) of
                None \<Rightarrow> failed ctx d
                  (Errorf ''Error: `properties` was nil for Network Interface %q (Resource Group %q)''
                     [networkInterfaceName, resourceGroup])
              | Some nicProps \<Rightarrow>
                 (case IPConfigurations nicProps of
                    None \<Rightarrow> failed ctx d
                      (Errorf ''Error: `properties.IPConfigurations` was nil for Network Interface %q (Resource Group %q)''
                         [networkInterfaceName, resourceGroup])
                  | Some ipConfigs \<Rightarrow>
                     (case FindNetworkInterfaceIPConfiguration (IPConfigurations nicProps) ipConfigurationName of
                        None \<Rightarrow> done_ok ctx (SetId d [])
                      | Some config \<Rightarrow>
                         (let found =
                            (case ipc_Properties config of
                               None \<Rightarrow> False
                             | Some props \<Rightarrow>
                                 (case LoadBalancerBackendAddressPools props of
                                    None \<Rightarrow> False
                                  | Some backendPools \<Rightarrow> poolFound backendAddressPoolId backendPools))
                          in if \<not> found then done_ok ctx (SetId d [])
                             else done_ok ctx
                               (Set_attr
                                 (Set_attr
                                   (Set_attr d ''backend_address_pool_id'' (AString backendAddressPoolId))
                                   ''ip_configuration_name'' (AString ipConfigurationName))
                                 ''network_interface_id'' (AStringPtr (nic_ID (resp_value read))))))))))"

text \<open>
  Create. \<open>read\<close> answers the fetch of line 82, \<open>put_err\<close> and \<open>wait_err\<close> are the errors of
  \<^verbatim>\<open>CreateOrUpdate\<close> and of \<^verbatim>\<open>WaitForCompletionRef\<close>, \<open>read2\<close> answers the fetch of the
  closing Read. The properties of the IP configuration are reached through a pointer, so
  the assignment of line 132 is seen by \<open>config\<close> when line 134 passes it on.
\<close>

definition resourceNetworkInterfaceBackendAddressPoolAssociationCreate ::
  "AzureIDParser \<Rightarrow> FindIPConfiguration \<Rightarrow> UpdateIPConfiguration \<Rightarrow> ResourceData
     \<Rightarrow> Interface response \<Rightarrow> string option \<Rightarrow> string option \<Rightarrow> Interface response
     \<Rightarrow> Interface outcome" where
  "resourceNetworkInterfaceBackendAddressPoolAssociationCreate ParseAzureResourceID
       FindNetworkInterfaceIPConfiguration updateNetworkInterfaceIPConfiguration
       d read put_err wait_err read2 =
     (let ctx = ForCreate d;
          networkInterfaceId = rd_String d ''network_interface_id'';
          ipConfigurationName = rd_String d ''ip_configuration_name'';
          backendAddressPoolId = rd_String d ''backend_address_pool_id''
      in
      case ParseAzureResourceID networkInterfaceId of
        Inl err \<Rightarrow> failed ctx d (Propagated err)
      | Inr ident \<Rightarrow>
         (let networkInterfaceName = PathAt ident ''networkInterfaces'';
              resourceGroup = rid_ResourceGroup ident
          in
          case resp_err read of
            Some err \<Rightarrow>
              if ResponseWasNotFound read then
                failed ctx d
                  (Errorf ''Network Interface %q (Resource Group %q) was not found!''
                     [networkInterfaceName, resourceGroup])
              else failed ctx d
                (Errorf ''Error retrieving Network Interface %q (Resource Group %q): %+v''
                   [networkInterfaceName, resourceGroup, err])
          | None \<Rightarrow>
             (case nic_Properties (resp_value read) of
                None \<Rightarrow> failed ctx d
                  (Errorf ''Error: `properties` was nil for Network Interface %q (Resource Group %q)''
                     [networkInterfaceName, resourceGroup])
              | Some props \<Rightarrow>
                 (case IPConfigurations props of
                    None \<Rightarrow> failed ctx d
                      (Errorf ''Error: `properties.IPConfigurations` was nil for Network Interface %q (Resource Group %q)''
                         [networkInterfaceName, resourceGroup])
                  | Some ipConfigs \<Rightarrow>
                     (case FindNetworkInterfaceIPConfiguration (IPConfigurations props) ipConfigurationName of
                        None \<Rightarrow> failed ctx d
                          (Errorf ''Error: IP Configuration %q was not found on Network Interface %q (Resource Group %q)''
                             [ipConfigurationName, networkInterfaceName, resourceGroup])
                      | Some config \<Rightarrow>
                         (case ipc_Properties config of
                            None \<Rightarrow> failed ctx d
                              (Errorf ''Error: `IPConfiguration.properties` was nil for Network Interface %q (Resource Group %q)''
                                 [networkInterfaceName, resourceGroup])
                          | Some p \<Rightarrow>
                             (let resourceId = associationResourceId networkInterfaceId
                                                 ipConfigurationName backendAddressPoolId
                              in
                              case appendExistingPools resourceId backendAddressPoolId
                                     (case LoadBalancerBackendAddressPools p of
                                        None \<Rightarrow> [] | Some existing \<Rightarrow> existing) [] of
                                Inl err \<Rightarrow> failed ctx d err
                              | Inr pools0 \<Rightarrow>
                                 (let pool = \<lparr>bap_ID = Some backendAddressPoolId, bap_Name = None\<rparr>;
                                      pools = pools0 @ [pool];
                                      config' = config\<lparr>ipc_Properties :=
                                                  Some (p\<lparr>LoadBalancerBackendAddressPools := Some pools\<rparr>)\<rparr>;
                                      nic = (resp_value read)\<lparr>nic_Properties :=
                                              Some (props\<lparr>IPConfigurations :=
                                                updateNetworkInterfaceIPConfiguration config'
                                                  (IPConfigurations props)\<rparr>)\<rparr>
                                  in
                                  case put_err of
                                    Some err \<Rightarrow>
                                      \<lparr>ret = Some (Errorf ''Error updating Backend Address Pool Association for Network Interface %q (Resource Group %q): %+v''
                                                       [networkInterfaceName, resourceGroup, err]),
                                       rdata = d, sent = Some nic, deadline = ctx\<rparr>
                                  | None \<Rightarrow>
                                     (case wait_err of
                                        Some err \<Rightarrow>
                                          \<lparr>ret = Some (Errorf ''Error waiting for completion of Backend Address Pool Association for NIC %q (Resource Group %q): %+v''
                                                           [networkInterfaceName, resourceGroup, err]),
                                           rdata = d, sent = Some nic, deadline = ctx\<rparr>
                                      | None \<Rightarrow>
                                          (resourceNetworkInterfaceBackendAddressPoolAssociationRead
                                             ParseAzureResourceID FindNetworkInterfaceIPConfiguration
                                             (SetId d resourceId) read2)
                                            \<lparr>sent := Some nic, deadline := ctx\<rparr>)))))))))"

text \<open>
  Delete. \<open>read\<close> answers the fetch of line 251, \<open>put_err\<close> and \<open>wait_err\<close> are the errors
  of \<^verbatim>\<open>CreateOrUpdate\<close> and of \<^verbatim>\<open>WaitForCompletionRef\<close>.
\<close>

definition resourceNetworkInterfaceBackendAddressPoolAssociationDelete ::
  "AzureIDParser \<Rightarrow> FindIPConfiguration \<Rightarrow> UpdateIPConfiguration \<Rightarrow> ResourceData
     \<Rightarrow> Interface response \<Rightarrow> string option \<Rightarrow> string option \<Rightarrow> Interface outcome" where
  "resourceNetworkInterfaceBackendAddressPoolAssociationDelete ParseAzureResourceID
       FindNetworkInterfaceIPConfiguration updateNetworkInterfaceIPConfiguration
       d read put_err wait_err =
     (let ctx = ForDelete d in
      case parseAssociationId ParseAzureResourceID (rd_Id d) of
        Inl err \<Rightarrow> failed ctx d err
      | Inr (ipConfigurationName, networkInterfaceName, resourceGroup, backendAddressPoolId) \<Rightarrow>
         (case resp_err read of
            Some err \<Rightarrow>
              if ResponseWasNotFound read then
                failed ctx d
                  (Errorf ''Network Interface %q (Resource Group %q) was not found!''
                     [networkInterfaceName, resourceGroup])
              else failed ctx d
                (Errorf ''Error retrieving Network Interface %q (Resource Group %q): %+v''
                   [networkInterfaceName, resourceGroup, err])
          | None \<Rightarrow>
             (case nic_Properties (resp_value read) of
                None \<Rightarrow> failed ctx d
                  (Errorf ''Error: `properties` was nil for Network Interface %q (Resource Group %q)''
                     [networkInterfaceName, resourceGroup])
              | Some nicProps \<Rightarrow>
                 (case IPConfigurations nicProps of
                    None \<Rightarrow> failed ctx d
                      (Errorf ''Error: `properties.IPConfigurations` was nil for Network Interface %q (Resource Group %q)''
                         [networkInterfaceName, resourceGroup])
                  | Some ipConfigs \<Rightarrow>
                     (case FindNetworkInterfaceIPConfiguration (IPConfigurations nicProps) ipConfigurationName of
                        None \<Rightarrow> failed ctx d
                          (Errorf ''Error: IP Configuration %q was not found on Network Interface %q (Resource Group %q)''
                             [ipConfigurationName, networkInterfaceName, resourceGroup])
                      | Some config \<Rightarrow>
                         (case ipc_Properties config of
                            None \<Rightarrow> failed ctx d
                              (Errorf ''Error: Properties for IPConfiguration %q was nil for Network Interface %q (Resource Group %q)''
                                 [ipConfigurationName, networkInterfaceName, resourceGroup])
                          | Some props \<Rightarrow>
                             (let backendAddressPools =
                                    retainOtherPools backendAddressPoolId
                                      (case LoadBalancerBackendAddressPools props of
                                         None \<Rightarrow> [] | Some backendPools \<Rightarrow> backendPools) [];
                                  config' = config\<lparr>ipc_Properties :=
                                              Some (props\<lparr>LoadBalancerBackendAddressPools :=
                                                            Some backendAddressPools\<rparr>)\<rparr>;
                                  nic = (resp_value read)\<lparr>nic_Properties :=
                                          Some (nicProps\<lparr>IPConfigurations :=
                                            updateNetworkInterfaceIPConfiguration config'
                                              (IPConfigurations nicProps)\<rparr>)\<rparr>
                              in
                              case put_err of
                                Some err \<Rightarrow>
                                  \<lparr>ret = Some (Errorf ''Error removing Backend Address Pool Association for Network Interface %q (Resource Group %q): %+v''
                                                   [networkInterfaceName, resourceGroup, err]),
                                   rdata = d, sent = Some nic, deadline = ctx\<rparr>
                              | None \<Rightarrow>
                                 (case wait_err of
                                    Some err \<Rightarrow>
                                      \<lparr>ret = Some (Errorf ''Error waiting for removal of Backend Address Pool Association for NIC %q (Resource Group %q): %+v''
                                                       [networkInterfaceName, resourceGroup, err]),
                                       rdata = d, sent = Some nic, deadline = ctx\<rparr>
                                  | None \<Rightarrow>
                                      \<lparr>ret = None, rdata = d, sent = Some nic, deadline = ctx\<rparr>))))))))"

section \<open>IoT Hub route\<close>

record RouteProperties =
  rt_Name :: "string option"
  rt_Source :: string
  rt_Condition :: "string option"
  rt_EndpointNames :: "string list option"
  rt_IsEnabled :: "bool option"

record RoutingProperties =
  Routes :: "RouteProperties list option"

record IotHubProperties =
  Routing :: "RoutingProperties option"

record IotHubDescription =
  hub_ID :: "string option"
  hub_Properties :: "IotHubProperties option"

text \<open>
  \<^verbatim>\<open>strings.EqualFold\<close> (equality under Unicode case folding) is a parameter of the
  handlers: nothing below depends on which strings it identifies.
\<close>

type_synonym EqualFold = "string \<Rightarrow> string \<Rightarrow> bool"

text \<open>
  \<^verbatim>\<open>utils.ExpandStringSlice\<close> is not among the sources; it turns the list held by the
  resource data into a pointer to a slice of the same strings.
\<close>

definition ExpandStringSlice :: "string list \<Rightarrow> string list option" where
  "ExpandStringSlice input = Some input"

text \<open>
  The loop of CreateUpdate, lines 146 to 158. The state of the loop is the list \<open>routes\<close>
  and the flag \<open>alreadyExists\<close>.
\<close>

fun mergeRoutes ::
  "EqualFold \<Rightarrow> bool \<Rightarrow> string \<Rightarrow> string \<Rightarrow> RouteProperties \<Rightarrow> RouteProperties list
     \<Rightarrow> RouteProperties list \<Rightarrow> bool \<Rightarrow> error + (RouteProperties list \<times> bool)" where
  "mergeRoutes EqualFold isNew resourceId routeName route [] routes alreadyExists =
     Inr (routes, alreadyExists)"
| "mergeRoutes EqualFold isNew resourceId routeName route (existingRoute # rest) routes alreadyExists =
     (case rt_Name existingRoute of
        None \<Rightarrow> mergeRoutes EqualFold isNew resourceId routeName route rest routes alreadyExists
      | Some name \<Rightarrow>
          if EqualFold name routeName then
            (if isNew then Inl (ImportAsExistsError ''azurerm_iothub_route'' resourceId)
             else mergeRoutes EqualFold isNew resourceId routeName route rest (routes @ [route]) True)
          else mergeRoutes EqualFold isNew resourceId routeName route rest
                 (routes @ [existingRoute]) alreadyExists)"

text \<open>The loop of Read, lines 210 to 219: every route of that name writes its attributes.\<close>

fun setMatchingRoutes ::
  "EqualFold \<Rightarrow> string \<Rightarrow> RouteProperties list \<Rightarrow> ResourceData \<Rightarrow> ResourceData" where
  "setMatchingRoutes EqualFold routeName [] d = d"
| "setMatchingRoutes EqualFold routeName (route # rest) d =
     (case rt_Name route of
        None \<Rightarrow> setMatchingRoutes EqualFold routeName rest d
      | Some name \<Rightarrow>
          if EqualFold name routeName then
            setMatchingRoutes EqualFold routeName rest
              (Set_attr
                (Set_attr
                  (Set_attr
                    (Set_attr d ''source'' (AString (rt_Source route)))
                    ''condition'' (AStringPtr (rt_Condition route)))
                  ''enabled'' (ABoolPtr (rt_IsEnabled route)))
                ''endpoint_names'' (AStringsPtr (rt_EndpointNames route)))
          else setMatchingRoutes EqualFold routeName rest d)"

text \<open>The loop of Delete, lines 261 to 267.\<close>

fun retainOtherRoutes ::
  "EqualFold \<Rightarrow> string \<Rightarrow> RouteProperties list \<Rightarrow> RouteProperties list \<Rightarrow> RouteProperties list" where
  "retainOtherRoutes EqualFold routeName [] updatedRoutes = updatedRoutes"
| "retainOtherRoutes EqualFold routeName (route # rest) updatedRoutes =
     (case rt_Name route of
        None \<Rightarrow> retainOtherRoutes EqualFold routeName rest updatedRoutes
      | Some name \<Rightarrow>
          if \<not> EqualFold name routeName
          then retainOtherRoutes EqualFold routeName rest (updatedRoutes @ [route])
          else retainOtherRoutes EqualFold routeName rest updatedRoutes)"

definition resourceIotHubRouteRead ::
  "AzureIDParser \<Rightarrow> EqualFold \<Rightarrow> ResourceData \<Rightarrow> IotHubDescription response
     \<Rightarrow> IotHubDescription outcome" where
  "resourceIotHubRouteRead ParseAzureResourceID EqualFold d iothub =
     (let ctx = ForRead d in
      case ParseAzureResourceID (rd_Id d) of
        Inl err \<Rightarrow> failed ctx d (Propagated err)
      | Inr parsedIothubRouteId \<Rightarrow>
         (let resourceGroup = rid_ResourceGroup parsedIothubRouteId;
              iothubName = PathAt parsedIothubRouteId ''IotHubs'';
              routeName = PathAt parsedIothubRouteId ''Routes''
          in
          case resp_err iothub of
            Some err \<Rightarrow>
              failed ctx d
                (Errorf ''Error loading IotHub %q (Resource Group %q): %+v''
                   [iothubName, resourceGroup, err])
          | None \<Rightarrow>
             (let d1 = Set_attr
                         (Set_attr
                           (Set_attr d ''name'' (AString routeName))
                           ''iothub_name'' (AString iothubName))
                         ''resource_group_name'' (AString resourceGroup)
              in
              case hub_Properties (resp_value iothub) of
                None \<Rightarrow> done_ok ctx d1
              | Some properties \<Rightarrow>
                 (case Routing properties of
                    None \<Rightarrow> done_ok ctx d1
                  | Some routing \<Rightarrow>
                     (case Routes routing of
                        None \<Rightarrow> done_ok ctx d1
                      | Some routes \<Rightarrow>
                          done_ok ctx (setMatchingRoutes EqualFold routeName routes d1))))))"

text \<open>
  CreateUpdate. \<open>iothub\<close> answers the fetch of line 106, \<open>put_err\<close> and \<open>wait_err\<close> are the
  errors of \<^verbatim>\<open>CreateOrUpdate\<close> and of \<^verbatim>\<open>WaitForCompletionRef\<close>, \<open>iothub2\<close> answers the fetch
  of the closing Read.

  Line 132 reads \<^verbatim>\<open>iothub.Properties.Routing\<close> through the pointer \<^verbatim>\<open>iothub.Properties\<close>, and
  line 117 dereferences \<^verbatim>\<open>iothub.ID\<close>: a nil pointer there is a panic. When the hub has no
  routing object, lines 134 to 136 make a fresh one that only the local variable \<open>routing\<close>
  points to: line 166 stores the new list in that object, and the hub that line 168
  submits still has no routing object. When the hub has one, \<open>routing\<close> points into the
  hub and line 166 changes the hub that is submitted.
\<close>

definition resourceIotHubRouteCreateUpdate ::
  "AzureIDParser \<Rightarrow> EqualFold \<Rightarrow> ResourceData \<Rightarrow> IotHubDescription response
     \<Rightarrow> string option \<Rightarrow> string option \<Rightarrow> IotHubDescription response
     \<Rightarrow> IotHubDescription outcome" where
  "resourceIotHubRouteCreateUpdate ParseAzureResourceID EqualFold d iothub put_err wait_err iothub2 =
     (let ctx = ForCreateUpdate d;
          iothubName = rd_String d ''iothub_name'';
          resourceGroup = rd_String d ''resource_group_name''
      in
      case resp_err iothub of
        Some err \<Rightarrow>
          if ResponseWasNotFound iothub then
            failed ctx d
              (Errorf ''IotHub %q (Resource Group %q) was not found'' [iothubName, resourceGroup])
          else failed ctx d
            (Errorf ''Error loading IotHub %q (Resource Group %q): %+v''
               [iothubName, resourceGroup, err])
      | None \<Rightarrow>
         (let routeName = rd_String d ''name'' in
          case hub_ID (resp_value iothub) of
            None \<Rightarrow> failed ctx d RuntimePanic
          | Some hubId \<Rightarrow>
             (let resourceId = hubId @ ''/Routes/'' @ routeName;
                  route = \<lparr>rt_Name = Some routeName,
                           rt_Source = rd_String d ''source'',
                           rt_Condition = Some (rd_String d ''condition''),
                           rt_EndpointNames = ExpandStringSlice (rd_List d ''endpoint_names''),
                           rt_IsEnabled = Some (rd_Bool d ''enabled'')\<rparr>
              in
              case hub_Properties (resp_value iothub) of
                None \<Rightarrow> failed ctx d RuntimePanic
              | Some properties \<Rightarrow>
                 (let existing =
                        (case Routing properties of
                           None \<Rightarrow> []
                         | Some routing \<Rightarrow>
                             (case Routes routing of None \<Rightarrow> [] | Some rs \<Rightarrow> rs))
                  in
                  case mergeRoutes EqualFold (rd_IsNewResource d) resourceId routeName route
                         existing [] False of
                    Inl err \<Rightarrow> failed ctx d err
                  | Inr (routes0, alreadyExists) \<Rightarrow>
                      if \<not> rd_IsNewResource d \<and> \<not> alreadyExists then
                        failed ctx d
                          (Errorf ''Unable to find Route %q defined for IotHub %q (Resource Group %q)''
                             [routeName, iothubName, resourceGroup])
                      else
                       (let routes = (if rd_IsNewResource d then routes0 @ [route] else routes0);
                            hub = (resp_value iothub)\<lparr>hub_Properties :=
                                    Some (properties\<lparr>Routing :=
                                      (case Routing properties of
                                         None \<Rightarrow> None
                                       | Some routing \<Rightarrow> Some (routing\<lparr>Routes := Some routes\<rparr>))\<rparr>)\<rparr>
                        in
                        case put_err of
                          Some err \<Rightarrow>
                            \<lparr>ret = Some (Errorf ''Error creating/updating IotHub %q (Resource Group %q): %+v''
                                             [iothubName, resourceGroup, err]),
                             rdata = d, sent = Some hub, deadline = ctx\<rparr>
                        | None \<Rightarrow>
                           (case wait_err of
                              Some err \<Rightarrow>
                                \<lparr>ret = Some (Errorf ''Error waiting for the completion of the creating/updating of IotHub %q (Resource Group %q): %+v''
                                                 [iothubName, resourceGroup, err]),
                                 rdata = d, sent = Some hub, deadline = ctx\<rparr>
                            | None \<Rightarrow>
                                (resourceIotHubRouteRead ParseAzureResourceID EqualFold
                                   (SetId d resourceId) iothub2)
                                  \<lparr>sent := Some hub, deadline := ctx\<rparr>))))))"

text \<open>
  Delete. \<open>iothub\<close> answers the fetch of line 242, \<open>put_err\<close> and \<open>wait_err\<close> are the errors
  of \<^verbatim>\<open>CreateOrUpdate\<close> and of \<^verbatim>\<open>WaitForCompletionRef\<close>.
\<close>

definition resourceIotHubRouteDelete ::
  "AzureIDParser \<Rightarrow> EqualFold \<Rightarrow> ResourceData \<Rightarrow> IotHubDescription response
     \<Rightarrow> string option \<Rightarrow> string option \<Rightarrow> IotHubDescription outcome" where
  "resourceIotHubRouteDelete ParseAzureResourceID EqualFold d iothub put_err wait_err =
     (let ctx = ForDelete d in
      case ParseAzureResourceID (rd_Id d) of
        Inl err \<Rightarrow> failed ctx d (Propagated err)
      | Inr parsedIothubRouteId \<Rightarrow>
         (let resourceGroup = rid_ResourceGroup parsedIothubRouteId;
              iothubName = PathAt parsedIothubRouteId ''IotHubs'';
              routeName = PathAt parsedIothubRouteId ''Routes''
          in
          case resp_err iothub of
            Some err \<Rightarrow>
              if ResponseWasNotFound iothub then
                failed ctx d
                  (Errorf ''IotHub %q (Resource Group %q) was not found'' [iothubName, resourceGroup])
              else failed ctx d
                (Errorf ''Error loading IotHub %q (Resource Group %q): %+v''
                   [iothubName, resourceGroup, err])
          | None \<Rightarrow>
             (case hub_Properties (resp_value iothub) of
                None \<Rightarrow> done_ok ctx d
              | Some properties \<Rightarrow>
                 (case Routing properties of
                    None \<Rightarrow> done_ok ctx d
                  | Some routing \<Rightarrow>
                     (case Routes routing of
                        None \<Rightarrow> done_ok ctx d
                      | Some routes \<Rightarrow>
                         (let updatedRoutes = retainOtherRoutes EqualFold routeName routes [];
                              hub = (resp_value iothub)\<lparr>hub_Properties :=
                                      Some (properties\<lparr>Routing :=
                                        Some (routing\<lparr>Routes := Some updatedRoutes\<rparr>)\<rparr>)\<rparr>
                          in
                          case put_err of
                            Some err \<Rightarrow>
                              \<lparr>ret = Some (Errorf ''Error updating IotHub %q (Resource Group %q) with Route %q: %+v''
                                               [iothubName, resourceGroup, routeName, err]),
                               rdata = d, sent = Some hub, deadline = ctx\<rparr>
                          | None \<Rightarrow>
                             (case wait_err of
                                Some err \<Rightarrow>
                                  \<lparr>ret = Some (Errorf ''Error waiting for IotHub %q (Resource Group %q) to finish updating Route %q: %+v''
                                                   [iothubName, resourceGroup, routeName, err]),
                                   rdata = d, sent = Some hub, deadline = ctx\<rparr>
                              | None \<Rightarrow>
                                  \<lparr>ret = None, rdata = d, sent = Some hub, deadline = ctx\<rparr>)))))))"

section \<open>Subnet / NAT gateway association\<close>

record SubResource =
  sr_ID :: "string option"

record SubnetPropertiesFormat =
  NatGateway :: "SubResource option"

record Subnet =
  sn_ID :: "string option"
  sn_Properties :: "SubnetPropertiesFormat option"

text \<open>
  The results of \<^verbatim>\<open>parse.SubnetID\<close> and \<^verbatim>\<open>parse.NatGatewayID\<close>; both parsers are not
  among the sources and are arguments of the handlers.
\<close>

record SubnetId =
  sid_ResourceGroup :: string
  sid_VirtualNetworkName :: string
  sid_Name :: string

record NatGatewayId =
  ngid_ResourceGroup :: string
  ngid_Name :: string

type_synonym SubnetIDParser = "string \<Rightarrow> string + SubnetId"

type_synonym NatGatewayIDParser = "string \<Rightarrow> string + NatGatewayId"

definition resourceSubnetNatGatewayAssociationRead ::
  "SubnetIDParser \<Rightarrow> ResourceData \<Rightarrow> Subnet response \<Rightarrow> Subnet outcome" where
  "resourceSubnetNatGatewayAssociationRead SubnetID d subnet =
     (let ctx = ForRead d in
      case SubnetID (rd_Id d) of
        Inl err \<Rightarrow> failed ctx d (Propagated err)
      | Inr ident \<Rightarrow>
         (let resourceGroup = sid_ResourceGroup ident;
              virtualNetworkName = sid_VirtualNetworkName ident;
              subnetName = sid_Name ident
          in
          case resp_err subnet of
            Some err \<Rightarrow>
              if ResponseWasNotFound subnet then done_ok ctx (SetId d [])
              else failed ctx d
                (Errorf ''Error retrieving Subnet %q (Virtual Network %q / Resource Group %q): %+v''
                   [subnetName, virtualNetworkName, resourceGroup, err])
          | None \<Rightarrow>
             (case sn_Properties (resp_value subnet) of
                None \<Rightarrow> failed ctx d
                  (Errorf ''Error: `properties` was nil for Subnet %q (Virtual Network %q / Resource Group %q)''
                     [subnetName, virtualNetworkName, resourceGroup])
              | Some props \<Rightarrow>
                 (case NatGateway props of
                    None \<Rightarrow> done_ok ctx (SetId d [])
                  | Some natGateway \<Rightarrow>
                      done_ok ctx
                        (Set_attr
                          (Set_attr d ''subnet_id'' (AStringPtr (sn_ID (resp_value subnet))))
                          ''nat_gateway_id'' (AStringPtr (sr_ID natGateway)))))))"

text \<open>
  Create. \<open>subnet\<close> answers the fetch of line 82, \<open>put_err\<close> and \<open>wait_err\<close> are the errors
  of \<^verbatim>\<open>CreateOrUpdate\<close> and of \<^verbatim>\<open>WaitForCompletionRef\<close>, \<open>read\<close> answers the fetch of line
  111 and \<open>subnet3\<close> the fetch of the closing Read. The properties are reached through a
  pointer, so the assignment of line 97 changes the subnet that line 102 submits; a subnet
  without properties is submitted as it was fetched.
\<close>

definition resourceSubnetNatGatewayAssociationCreate ::
  "SubnetIDParser \<Rightarrow> NatGatewayIDParser \<Rightarrow> ResourceData \<Rightarrow> Subnet response
     \<Rightarrow> string option \<Rightarrow> string option \<Rightarrow> Subnet response \<Rightarrow> Subnet response
     \<Rightarrow> Subnet outcome" where
  "resourceSubnetNatGatewayAssociationCreate SubnetID NatGatewayID d subnet put_err wait_err
       read subnet3 =
     (let ctx = ForCreate d;
          subnetId = rd_String d ''subnet_id'';
          natGatewayId = rd_String d ''nat_gateway_id''
      in
      case SubnetID subnetId of
        Inl err \<Rightarrow> failed ctx d (Propagated err)
      | Inr parsedSubnetId \<Rightarrow>
         (let subnetName = sid_Name parsedSubnetId;
              virtualNetworkName = sid_VirtualNetworkName parsedSubnetId;
              resourceGroup = sid_ResourceGroup parsedSubnetId
          in
          case NatGatewayID natGatewayId of
            Inl err \<Rightarrow> failed ctx d
              (Errorf ''Error parsing NAT gateway id '%s': %+v'' [natGatewayId, err])
          | Inr parsedGatewayId \<Rightarrow>
             (case resp_err subnet of
                Some err \<Rightarrow>
                  if ResponseWasNotFound subnet then
                    failed ctx d
                      (Errorf ''Subnet %q (Virtual Network %q / Resource Group %q) was not found!''
                         [subnetName, virtualNetworkName, resourceGroup])
                  else failed ctx d
                    (Errorf ''Error retrieving Subnet %q (Virtual Network %q / Resource Group %q): %+v''
                       [subnetName, virtualNetworkName, resourceGroup, err])
              | None \<Rightarrow>
                 (let conflict =
                        (case sn_Properties (resp_value subnet) of
                           None \<Rightarrow> None
                         | Some props \<Rightarrow>
                            (case NatGateway props of
                               None \<Rightarrow> None
                             | Some gateway \<Rightarrow>
                                (case sr_ID gateway of
                                   None \<Rightarrow> None
                                 | Some gid \<Rightarrow> sn_ID (resp_value subnet))))
                  in
                  case conflict of
                    Some sid \<Rightarrow>
                      failed ctx d (ImportAsExistsError ''azurerm_subnet_nat_gateway_association'' sid)
                  | None \<Rightarrow>
                     (let subnet' =
                            (case sn_Properties (resp_value subnet) of
                               None \<Rightarrow> resp_value subnet
                             | Some props \<Rightarrow>
                                 (resp_value subnet)\<lparr>sn_Properties :=
                                    Some (props\<lparr>NatGateway := Some \<lparr>sr_ID = Some natGatewayId\<rparr>\<rparr>)\<rparr>)
                      in
                      case put_err of
                        Some err \<Rightarrow>
                          \<lparr>ret = Some (Errorf ''Error updating NAT Gateway Association for Subnet %q (Virtual Network %q / Resource Group %q): %+v''
                                           [subnetName, virtualNetworkName, resourceGroup, err]),
                           rdata = d, sent = Some subnet', deadline = ctx\<rparr>
                      | None \<Rightarrow>
                         (case wait_err of
                            Some err \<Rightarrow>
                              \<lparr>ret = Some (Errorf ''Error waiting for completion of NAT Gateway Association for Subnet %q (VN %q / Resource Group %q): %+v''
                                               [subnetName, virtualNetworkName, resourceGroup, err]),
                               rdata = d, sent = Some subnet', deadline = ctx\<rparr>
                          | None \<Rightarrow>
                             (case resp_err read of
                                Some err \<Rightarrow>
                                  \<lparr>ret = Some (Errorf ''Error retrieving Subnet %q (Virtual Network %q / Resource Group %q): %+v''
                                                   [subnetName, virtualNetworkName, resourceGroup, err]),
                                   rdata = d, sent = Some subnet', deadline = ctx\<rparr>
                              | None \<Rightarrow>
                                 (case sn_ID (resp_value read) of
                                    None \<Rightarrow>
                                      \<lparr>ret = Some RuntimePanic, rdata = d, sent = Some subnet',
                                       deadline = ctx\<rparr>
                                  | Some rid \<Rightarrow>
                                      (resourceSubnetNatGatewayAssociationRead SubnetID
                                         (SetId d rid) subnet3)
                                        \<lparr>sent := Some subnet', deadline := ctx\<rparr>))))))))"


section \<open>Resource group\<close>

text \<open>
  \<^verbatim>\<open>tags.Expand\<close> is not among the sources; it turns the map held by the resource data
  into the map of the payload, given here by its entries.
\<close>

record Group =
  grp_ID :: "string option"
  grp_Name :: "string option"
  grp_Location :: "string option"
  grp_Tags :: "(string \<times> string) list"

record ResourceGroupId =
  rgid_SubscriptionId :: string
  rgid_ResourceGroup :: string

text \<open>
  Not among the sources and arguments of the handlers: \<^verbatim>\<open>parse.ResourceGroupID\<close>,
  \<^verbatim>\<open>location.Normalize\<close>, \<^verbatim>\<open>location.NormalizeNilable\<close> and \<^verbatim>\<open>tags.FlattenAndSet\<close>, which
  writes the tags into the resource data and may fail.
\<close>

type_synonym ResourceGroupIDParser = "string \<Rightarrow> string + ResourceGroupId"

type_synonym FlattenAndSet =
  "ResourceData \<Rightarrow> (string \<times> string) list \<Rightarrow> string option \<times> ResourceData"

text \<open>The existence check of CreateUpdate, lines 506 to 515.\<close>

definition checkExistingGroup :: "Group response \<Rightarrow> error option" where
  "checkExistingGroup existing =
     (case (case resp_err existing of
              Some err \<Rightarrow> if \<not> ResponseWasNotFound existing then Some err else None
            | None \<Rightarrow> None) of
        Some err \<Rightarrow>
          Some (Errorf ''Error checking for presence of existing resource group: %+v'' [err])
      | None \<Rightarrow>
         (case grp_ID (resp_value existing) of
            None \<Rightarrow> None
          | Some ident \<Rightarrow>
              if ident \<noteq> [] then Some (ImportAsExistsError ''azurerm_resource_group'' ident)
              else None))"

definition resourceResourceGroupRead ::
  "(string option \<Rightarrow> string) \<Rightarrow> ResourceGroupIDParser \<Rightarrow> FlattenAndSet \<Rightarrow> ResourceData
     \<Rightarrow> Group response \<Rightarrow> Group outcome" where
  "resourceResourceGroupRead NormalizeNilable ResourceGroupID FlattenAndSet d resp =
     (let ctx = ForRead d in
      case ResourceGroupID (rd_Id d) of
        Inl err \<Rightarrow> failed ctx d (Propagated err)
      | Inr ident \<Rightarrow>
         (case resp_err resp of
            Some err \<Rightarrow>
              if ResponseWasNotFound resp then done_ok ctx (SetId d [])
              else failed ctx d (Errorf ''Error reading resource group: %+v'' [err])
          | None \<Rightarrow>
             (let d1 = Set_attr
                         (Set_attr d ''name'' (AStringPtr (grp_Name (resp_value resp))))
                         ''location'' (AString (NormalizeNilable (grp_Location (resp_value resp))))
              in
              case FlattenAndSet d1 (grp_Tags (resp_value resp)) of
                (Some err, d2) \<Rightarrow> failed ctx d2 (Propagated err)
              | (None, d2) \<Rightarrow> done_ok ctx d2)))"

text \<open>
  CreateUpdate. \<open>existing\<close> answers the fetch of line 506 (made for a new resource only),
  \<open>put_err\<close> is the error of \<^verbatim>\<open>CreateOrUpdate\<close>, \<open>resp\<close> answers the fetch of line 527 and
  \<open>resp2\<close> the fetch of the closing Read.
\<close>

definition resourceResourceGroupCreateUpdate ::
  "(string \<Rightarrow> string) \<Rightarrow> (string option \<Rightarrow> string) \<Rightarrow> ResourceGroupIDParser \<Rightarrow> FlattenAndSet
     \<Rightarrow> ResourceData \<Rightarrow> Group response \<Rightarrow> string option \<Rightarrow> Group response \<Rightarrow> Group response
     \<Rightarrow> Group outcome" where
  "resourceResourceGroupCreateUpdate Normalize NormalizeNilable ResourceGroupID FlattenAndSet
       d existing put_err resp resp2 =
     (let ctx = ForCreateUpdate d;
          name = rd_String d ''name'';
          location = Normalize (rd_String d ''location'');
          t = rd_Map d ''tags''
      in
      case (if rd_IsNewResource d then checkExistingGroup existing else None) of
        Some err \<Rightarrow> failed ctx d err
      | None \<Rightarrow>
         (let parameters = \<lparr>grp_ID = None, grp_Name = None, grp_Location = Some location,
                             grp_Tags = t\<rparr>
          in
          case put_err of
            Some err \<Rightarrow>
              \<lparr>ret = Some (Errorf ''Error creating Resource Group %q: %+v'' [name, err]),
               rdata = d, sent = Some parameters, deadline = ctx\<rparr>
          | None \<Rightarrow>
             (case resp_err resp of
                Some err \<Rightarrow>
                  \<lparr>ret = Some (Errorf ''Error retrieving Resource Group %q: %+v'' [name, err]),
                   rdata = d, sent = Some parameters, deadline = ctx\<rparr>
              | None \<Rightarrow>
                 (case grp_ID (resp_value resp) of
                    None \<Rightarrow>
                      \<lparr>ret = Some RuntimePanic, rdata = d, sent = Some parameters, deadline = ctx\<rparr>
                  | Some ident \<Rightarrow>
                      (resourceResourceGroupRead NormalizeNilable ResourceGroupID FlattenAndSet
                         (SetId d ident) resp2)
                        \<lparr>sent := Some parameters, deadline := ctx\<rparr>))))"

section \<open>Virtual machine scale set extension\<close>

text \<open>
  A value of the Go type \<^verbatim>\<open>interface{}\<close> that holds the settings of an extension: nil, a
  JSON object (given by its entries) or a value of another type.
\<close>

datatype JsonValue = JsonNil | JsonObject "(string \<times> string) list" | JsonOther string

record VirtualMachineScaleSetExtensionProperties =
  ext_ForceUpdateTag :: "string option"
  ext_Publisher :: "string option"
  ext_Type :: "string option"
  ext_TypeHandlerVersion :: "string option"
  ext_AutoUpgradeMinorVersion :: "bool option"
  ext_Settings :: JsonValue
  ext_ProtectedSettings :: JsonValue
  ext_ProvisionAfterExtensions :: "string list option"

record VirtualMachineScaleSetExtension =
  ext_ID :: "string option"
  ext_Name :: "string option"
  ext_Properties :: "VirtualMachineScaleSetExtensionProperties option"

record VirtualMachineScaleSet =
  vmss_ID :: "string option"

record VirtualMachineScaleSetId =
  vmssid_ResourceGroup :: string
  vmssid_Name :: string

record VirtualMachineScaleSetExtensionId =
  extid_ResourceGroup :: string
  extid_VirtualMachineScaleSetName :: string
  extid_ExtensionName :: string

text \<open>
  Not among the sources and arguments of the handlers: \<^verbatim>\<open>parse.VirtualMachineScaleSetID\<close>,
  \<^verbatim>\<open>parse.VirtualMachineScaleSetExtensionID\<close>, \<^verbatim>\<open>pluginsdk.ExpandJsonFromString\<close> and
  \<^verbatim>\<open>pluginsdk.FlattenJsonToString\<close>. \<^verbatim>\<open>utils.FlattenStringSlice\<close> is not among the sources
  either; it turns a pointer to a slice of strings into the list of these strings, empty
  for a nil pointer. \<^verbatim>\<open>d.GetOk\<close> reports a string that is not empty.
\<close>

type_synonym VirtualMachineScaleSetIDParser = "string \<Rightarrow> string + VirtualMachineScaleSetId"

type_synonym VirtualMachineScaleSetExtensionIDParser =
  "string \<Rightarrow> string + VirtualMachineScaleSetExtensionId"

type_synonym ExpandJsonFromString = "string \<Rightarrow> string + (string \<times> string) list"

type_synonym FlattenJsonToString = "(string \<times> string) list \<Rightarrow> string + string"

definition FlattenStringSlice :: "string list option \<Rightarrow> string list" where
  "FlattenStringSlice input = (case input of None \<Rightarrow> [] | Some xs \<Rightarrow> xs)"

definition resourceVirtualMachineScaleSetExtensionRead ::
  "VirtualMachineScaleSetExtensionIDParser \<Rightarrow> FlattenJsonToString \<Rightarrow> ResourceData
     \<Rightarrow> VirtualMachineScaleSet response \<Rightarrow> VirtualMachineScaleSetExtension response
     \<Rightarrow> VirtualMachineScaleSetExtension outcome" where
  "resourceVirtualMachineScaleSetExtensionRead VirtualMachineScaleSetExtensionID
       FlattenJsonToString d vmss resp =
     (let ctx = ForRead d in
      case VirtualMachineScaleSetExtensionID (rd_Id d) of
        Inl err \<Rightarrow> failed ctx d (Propagated err)
      | Inr ident \<Rightarrow>
         (case resp_err vmss of
            Some err \<Rightarrow>
              if ResponseWasNotFound vmss then done_ok ctx (SetId d [])
              else failed ctx d
                (Errorf ''Error retrieving Virtual Machine Scale Set %q (Resource Group %q): %+v''
                   [extid_VirtualMachineScaleSetName ident, extid_ResourceGroup ident, err])
          | None \<Rightarrow>
             (case resp_err resp of
                Some err \<Rightarrow>
                  if ResponseWasNotFound resp then done_ok ctx (SetId d [])
                  else failed ctx d
                    (Errorf ''Error retrieving Extension %q (Virtual Machine Scale Set %q / Resource Group %q): %+v''
                       [extid_ExtensionName ident, extid_VirtualMachineScaleSetName ident,
                        extid_ResourceGroup ident, err])
              | None \<Rightarrow>
                 (let d1 = Set_attr
                             (Set_attr d ''name'' (AString (extid_ExtensionName ident)))
                             ''virtual_machine_scale_set_id'' (AStringPtr (vmss_ID (resp_value vmss)))
                  in
                  case ext_Properties (resp_value resp) of
                    None \<Rightarrow> done_ok ctx d1
                  | Some props \<Rightarrow>
                     (let d2 = Set_attr
                                (Set_attr
                                  (Set_attr
                                    (Set_attr
                                      (Set_attr
                                        (Set_attr d1 ''auto_upgrade_minor_version''
                                           (ABoolPtr (ext_AutoUpgradeMinorVersion props)))
                                        ''force_update_tag'' (AStringPtr (ext_ForceUpdateTag props)))
                                      ''provision_after_extensions''
                                        (AStrings (FlattenStringSlice (ext_ProvisionAfterExtensions props))))
                                    ''publisher'' (AStringPtr (ext_Publisher props)))
                                  ''type'' (AStringPtr (ext_Type props)))
                                ''type_handler_version'' (AStringPtr (ext_TypeHandlerVersion props))
                      in
                      case (case ext_Settings props of
                              JsonObject settingsVal \<Rightarrow> FlattenJsonToString settingsVal
                            | _ \<Rightarrow> Inr []) of
                        Inl err \<Rightarrow> failed ctx d2
                          (Errorf ''unable to parse settings from response: %s'' [err])
                      | Inr settings \<Rightarrow>
                          done_ok ctx (Set_attr d2 ''settings'' (AString settings)))))))"

text \<open>
  Create. \<open>resp\<close> answers the fetch of line 126, \<open>put_err\<close> and \<open>wait_err\<close> are the errors of
  \<^verbatim>\<open>CreateOrUpdate\<close> and of \<^verbatim>\<open>WaitForCompletionRef\<close>, \<open>resp2\<close> answers the fetch of line 183,
  \<open>vmss\<close> and \<open>resp3\<close> answer the two fetches of the closing Read.
\<close>

definition resourceVirtualMachineScaleSetExtensionCreate ::
  "VirtualMachineScaleSetIDParser \<Rightarrow> VirtualMachineScaleSetExtensionIDParser
     \<Rightarrow> ExpandJsonFromString \<Rightarrow> FlattenJsonToString \<Rightarrow> ResourceData
     \<Rightarrow> VirtualMachineScaleSetExtension response \<Rightarrow> string option \<Rightarrow> string option
     \<Rightarrow> VirtualMachineScaleSetExtension response \<Rightarrow> VirtualMachineScaleSet response
     \<Rightarrow> VirtualMachineScaleSetExtension response \<Rightarrow> VirtualMachineScaleSetExtension outcome" where
  "resourceVirtualMachineScaleSetExtensionCreate VirtualMachineScaleSetID
       VirtualMachineScaleSetExtensionID ExpandJsonFromString FlattenJsonToString
       d resp put_err wait_err resp2 vmss resp3 =
     (let ctx = ForCreate d;
          name = rd_String d ''name''
      in
      case VirtualMachineScaleSetID (rd_String d ''virtual_machine_scale_set_id'') of
        Inl err \<Rightarrow> failed ctx d (Propagated err)
      | Inr virtualMachineScaleSetId \<Rightarrow>
         (let resourceGroup = vmssid_ResourceGroup virtualMachineScaleSetId;
              vmssName = vmssid_Name virtualMachineScaleSetId
          in
          case (case resp_err resp of
                  Some err \<Rightarrow> if \<not> ResponseWasNotFound resp then Some err else None
                | None \<Rightarrow> None) of
            Some err \<Rightarrow> failed ctx d
              (Errorf ''Error checking for existing Extension %q (Virtual Machine Scale Set %q / Resource Group %q): %+v''
                 [name, vmssName, resourceGroup, err])
          | None \<Rightarrow>
              if \<not> ResponseWasNotFound resp then
                (case ext_ID (resp_value resp) of
                   None \<Rightarrow> failed ctx d RuntimePanic
                 | Some ident \<Rightarrow>
                     failed ctx d
                       (ImportAsExistsError ''azurerm_virtual_machine_scale_set_extension'' ident))
              else
               (case (if rd_String d ''settings'' \<noteq> []
                      then ExpandJsonFromString (rd_String d ''settings'') else Inr []) of
                  Inl err \<Rightarrow> failed ctx d (Errorf ''unable to parse `settings`: %s'' [err])
                | Inr settings \<Rightarrow>
                   (let provisionAfterExtensions =
                          ExpandStringSlice (rd_List d ''provision_after_extensions'')
                    in
                    case (if rd_String d ''protected_settings'' \<noteq> []
                          then ExpandJsonFromString (rd_String d ''protected_settings'')
                          else Inr []) of
                      Inl err \<Rightarrow> failed ctx d
                        (Errorf ''unable to parse `protected_settings`: %s'' [err])
                    | Inr protectedSettings \<Rightarrow>
                       (let props =
                              \<lparr>ext_ID = None, ext_Name = Some name,
                               ext_Properties = Some
                                 \<lparr>ext_ForceUpdateTag =
                                    (if rd_String d ''force_update_tag'' \<noteq> []
                                     then Some (rd_String d ''force_update_tag'') else None),
                                  ext_Publisher = Some (rd_String d ''publisher''),
                                  ext_Type = Some (rd_String d ''type''),
                                  ext_TypeHandlerVersion = Some (rd_String d ''type_handler_version''),
                                  ext_AutoUpgradeMinorVersion =
                                    Some (rd_Bool d ''auto_upgrade_minor_version''),
                                  ext_Settings = JsonObject settings,
                                  ext_ProtectedSettings = JsonObject protectedSettings,
                                  ext_ProvisionAfterExtensions = provisionAfterExtensions\<rparr>\<rparr>
                        in
                        case put_err of
                          Some err \<Rightarrow>
                            \<lparr>ret = Some (Errorf ''Error creating Extension %q (Virtual Machine Scale Set %q / Resource Group %q): %+v''
                                             [name, vmssName, resourceGroup, err]),
                             rdata = d, sent = Some props, deadline = ctx\<rparr>
                        | None \<Rightarrow>
                           (case wait_err of
                              Some err \<Rightarrow>
                                \<lparr>ret = Some (Errorf ''Error waiting for creation of Extension %q (Virtual Machine Scale Set %q / Resource Group %q): %+v''
                                                 [name, vmssName, resourceGroup, err]),
                                 rdata = d, sent = Some props, deadline = ctx\<rparr>
                            | None \<Rightarrow>
                               (case resp_err resp2 of
                                  Some err \<Rightarrow>
                                    \<lparr>ret = Some (Errorf ''Error retrieving Extension %q (Virtual Machine Scale Set %q / Resource Group %q): %+v''
                                                     [name, vmssName, resourceGroup, err]),
                                     rdata = d, sent = Some props, deadline = ctx\<rparr>
                                | None \<Rightarrow>
                                   (case ext_ID (resp_value resp2) of
                                      None \<Rightarrow>
                                        \<lparr>ret = Some RuntimePanic, rdata = d, sent = Some props,
                                         deadline = ctx\<rparr>
                                    | Some ident \<Rightarrow>
                                        (resourceVirtualMachineScaleSetExtensionRead
                                           VirtualMachineScaleSetExtensionID FlattenJsonToString
                                           (SetId d ident) vmss resp3)
                                          \<lparr>sent := Some props, deadline := ctx\<rparr>))))))))"

section \<open>Backup protection container of a storage account\<close>

text \<open>
  The properties of a protection container are a value of the Go interface
  \<^verbatim>\<open>backup.BasicProtectionContainer\<close>: nil, an \<^verbatim>\<open>AzureStorageContainer\<close> with its
  \<^verbatim>\<open>SourceResourceID\<close>, \<^verbatim>\<open>FriendlyName\<close>, \<^verbatim>\<open>BackupManagementType\<close> and \<^verbatim>\<open>ContainerType\<close>,
  or a container of another kind.
\<close>

datatype ProtectionContainer =
    NoContainer
  | AzureStorageContainer "string option" "string option" string string
  | OtherContainer

record ProtectionContainerResource =
  pc_ID :: "string option"
  pc_Properties :: ProtectionContainer

text \<open>
  \<^verbatim>\<open>resourceBackupProtectionContainerStorageAccountWaitForOperation\<close>, lines 205 to 227.
  \<open>polled\<close> is what \<^verbatim>\<open>state.WaitForStateContext(ctx)\<close> returns: the last status when there
  is one, and the error. The timeout of the state change is the create timeout for a new
  resource and the update timeout otherwise. Both returns assert that the polled value is
  a \<^verbatim>\<open>backup.OperationStatus\<close>, which panics on a nil interface value.
\<close>

definition resourceBackupProtectionContainerStorageAccountWaitForOperation ::
  "ResourceData \<Rightarrow> (nat \<Rightarrow> string option \<times> string option) \<Rightarrow> error + string" where
  "resourceBackupProtectionContainerStorageAccountWaitForOperation d WaitForStateContext =
     (let stateTimeout = (if rd_IsNewResource d then rd_Timeout d TimeoutCreate
                          else rd_Timeout d TimeoutUpdate)
      in
      case WaitForStateContext stateTimeout of
        (None, err) \<Rightarrow> Inl RuntimePanic
      | (Some status, Some err) \<Rightarrow> Inl (Propagated err)
      | (Some status, None) \<Rightarrow> Inr status)"

definition resourceBackupProtectionContainerStorageAccountRead ::
  "AzureIDParser \<Rightarrow> ResourceData \<Rightarrow> ProtectionContainerResource response
     \<Rightarrow> ProtectionContainerResource outcome" where
  "resourceBackupProtectionContainerStorageAccountRead ParseAzureResourceID d resp =
     (let ctx = ForRead d in
      case ParseAzureResourceID (rd_Id d) of
        Inl err \<Rightarrow> failed ctx d (Propagated err)
      | Inr ident \<Rightarrow>
         (let resGroup = rid_ResourceGroup ident;
              vaultName = PathAt ident ''vaults'';
              fabricName = PathAt ident ''backupFabrics'';
              containerName = PathAt ident ''protectionContainers''
          in
          case resp_err resp of
            Some err \<Rightarrow>
              if ResponseWasNotFound resp then done_ok ctx (SetId d [])
              else failed ctx d
                (Errorf ''Error making Read request on backup protection container %s (Vault %s): %+v''
                   [containerName, vaultName, err])
          | None \<Rightarrow>
             (let d1 = Set_attr
                         (Set_attr d ''resource_group_name'' (AString resGroup))
                         ''recovery_vault_name'' (AString vaultName)
              in
              case pc_Properties (resp_value resp) of
                NoContainer \<Rightarrow> failed ctx d1 RuntimePanic
              | AzureStorageContainer sourceResourceID friendlyName managementType containerType \<Rightarrow>
                  done_ok ctx (Set_attr d1 ''storage_account_id'' (AStringPtr sourceResourceID))
              | OtherContainer \<Rightarrow> done_ok ctx d1)))"

text \<open>The existence check of Create, lines 76 to 85.\<close>

definition checkExistingContainer ::
  "(string \<Rightarrow> string) \<Rightarrow> ProtectionContainerResource response \<Rightarrow> string \<Rightarrow> string
     \<Rightarrow> error option" where
  "checkExistingContainer handleAzureSdkForGoBug2824 existing containerName vaultName =
     (case (case resp_err existing of
              Some err \<Rightarrow> if \<not> ResponseWasNotFound existing then Some err else None
            | None \<Rightarrow> None) of
        Some err \<Rightarrow>
          Some (Errorf ''Error checking for presence of existing recovery services protection container %s (Vault %s): %+v''
                  [containerName, vaultName, err])
      | None \<Rightarrow>
         (case pc_ID (resp_value existing) of
            None \<Rightarrow> None
          | Some ident \<Rightarrow>
              if ident \<noteq> [] then
                Some (ImportAsExistsError ''azurerm_backup_protection_container_storage''
                        (handleAzureSdkForGoBug2824 ident))
              else None))"

text \<open>
  Create. \<open>existing\<close> answers the fetch of line 76 (made for a new resource only),
  \<open>register\<close> is the answer of \<^verbatim>\<open>client.Register\<close> and \<open>location\<close> the path of its Location
  header when there is one, \<open>WaitForStateContext\<close> is the poller, \<open>resp\<close> answers the fetch
  of line 119 and \<open>resp2\<close> the fetch of the closing Read.
  \<^verbatim>\<open>handleAzureSdkForGoBug2824\<close> is not among the sources and is an argument.
  Line 57 derives the context of Create with \<^verbatim>\<open>timeouts.ForRead\<close>.
\<close>

definition resourceBackupProtectionContainerStorageAccountCreate ::
  "AzureIDParser \<Rightarrow> (string \<Rightarrow> string) \<Rightarrow> ResourceData
     \<Rightarrow> ProtectionContainerResource response \<Rightarrow> ProtectionContainerResource response
     \<Rightarrow> string option \<Rightarrow> (nat \<Rightarrow> string option \<times> string option)
     \<Rightarrow> ProtectionContainerResource response \<Rightarrow> ProtectionContainerResource response
     \<Rightarrow> ProtectionContainerResource outcome" where
  "resourceBackupProtectionContainerStorageAccountCreate ParseAzureResourceID
       handleAzureSdkForGoBug2824 d existing register location WaitForStateContext resp resp2 =
     (let ctx = ForRead d;
          resGroup = rd_String d ''resource_group_name'';
          vaultName = rd_String d ''recovery_vault_name'';
          storageAccountID = rd_String d ''storage_account_id''
      in
      case ParseAzureResourceID storageAccountID of
        Inl err \<Rightarrow> failed ctx d
          (Errorf ''[ERROR] Unable to parse storage_account_id '%s': %+v'' [storageAccountID, err])
      | Inr parsedStorageAccountID \<Rightarrow>
         (case rid_Path parsedStorageAccountID ''storageAccounts'' of
            None \<Rightarrow> failed ctx d
              (Errorf (''[ERROR] parsed storage_account_id '%s' doesn't contain 'storageAccounts'' @ [CHR 0x27])
                 [storageAccountID])
          | Some accountName \<Rightarrow>
             (let containerName = ''StorageContainer;storage;''
                    @ rid_ResourceGroup parsedStorageAccountID @ '';'' @ accountName
              in
              case (if rd_IsNewResource d
                    then checkExistingContainer handleAzureSdkForGoBug2824 existing
                           containerName vaultName
                    else None) of
                Some err \<Rightarrow> failed ctx d err
              | None \<Rightarrow>
                 (let parameters =
                        \<lparr>pc_ID = None,
                         pc_Properties = AzureStorageContainer (Some storageAccountID) (Some accountName)
                                           ''ManagementTypeAzureStorage'' ''ContainerTypeStorageContainer1''\<rparr>
                  in
                  case resp_err register of
                    Some err \<Rightarrow>
                      \<lparr>ret = Some (Errorf ''Error registering backup protection container %s (Vault %s): %+v''
                                       [containerName, vaultName, err]),
                       rdata = d, sent = Some parameters, deadline = ctx\<rparr>
                  | None \<Rightarrow>
                     (case location of
                        None \<Rightarrow>
                          \<lparr>ret = Some (Errorf ''Unable to determine operation URL for protection container registration status for %s. (Vault %s): Location header missing or empty''
                                           [containerName, vaultName]),
                           rdata = d, sent = Some parameters, deadline = ctx\<rparr>
                      | Some locationPath \<Rightarrow>
                         (case ParseAzureResourceID (handleAzureSdkForGoBug2824 locationPath) of
                            Inl err \<Rightarrow>
                              \<lparr>ret = Some (Propagated err), rdata = d, sent = Some parameters,
                               deadline = ctx\<rparr>
                          | Inr parsedLocation \<Rightarrow>
                             (case resourceBackupProtectionContainerStorageAccountWaitForOperation d
                                     WaitForStateContext of
                                Inl err \<Rightarrow>
                                  \<lparr>ret = Some err, rdata = d, sent = Some parameters, deadline = ctx\<rparr>
                              | Inr status \<Rightarrow>
                                 (case resp_err resp of
                                    Some err \<Rightarrow>
                                      \<lparr>ret = Some (Errorf ''Error retrieving site recovery protection container %s (Vault %s): %+v''
                                                       [containerName, vaultName, err]),
                                       rdata = d, sent = Some parameters, deadline = ctx\<rparr>
                                  | None \<Rightarrow>
                                     (case pc_ID (resp_value resp) of
                                        None \<Rightarrow>
                                          \<lparr>ret = Some RuntimePanic, rdata = d, sent = Some parameters,
                                           deadline = ctx\<rparr>
                                      | Some ident \<Rightarrow>
                                          (resourceBackupProtectionContainerStorageAccountRead
                                             ParseAzureResourceID
                                             (SetId d (handleAzureSdkForGoBug2824 ident)) resp2)
                                            \<lparr>sent := Some parameters, deadline := ctx\<rparr>)))))))))"

section \<open>Predicates used in the statements\<close>

text \<open>A route whose name is not nil and equal to the given name under case folding.\<close>

definition namedLike :: "EqualFold \<Rightarrow> string \<Rightarrow> RouteProperties \<Rightarrow> bool" where
  "namedLike EqualFold routeName r =
     (case rt_Name r of None \<Rightarrow> False | Some n \<Rightarrow> EqualFold n routeName)"

section \<open>Concrete inputs\<close>

text \<open>
  The inputs at which the handlers are evaluated below. The helpers that are arguments of
  the handlers are instantiated by \<open>exFind\<close> (the first IP configuration of the given
  name), \<open>exUpdate\<close> (the named IP configurations, with the ones named like the given one
  replaced by it) and parsers that answer the identifier of the example.
\<close>

definition exNicId :: string where
  "exNicId = ''/subscriptions/s/resourceGroups/g/providers/p/networkInterfaces/n''"

definition exPoolIdB :: string where
  "exPoolIdB = ''/subscriptions/s/resourceGroups/g/providers/p/loadBalancers/l/backendAddressPools/b''"

definition exPoolIdC :: string where
  "exPoolIdC = ''/subscriptions/s/resourceGroups/g/providers/p/loadBalancers/l/backendAddressPools/c''"

definition exHubId :: string where
  "exHubId = ''/subscriptions/s/resourceGroups/g/providers/p/IotHubs/h''"

definition exParsed :: ResourceID where
  "exParsed = \<lparr>rid_ResourceGroup = ''g'',
     rid_Path = [''networkInterfaces'' \<mapsto> ''n'', ''ipConfigurations'' \<mapsto> ''ipc'',
                 ''IotHubs'' \<mapsto> ''h'', ''Routes'' \<mapsto> ''r'',
                 ''storageAccounts'' \<mapsto> ''acct'']\<rparr>"

definition exParse :: AzureIDParser where
  "exParse ident = Inr exParsed"

definition exStrings :: "string \<Rightarrow> string" where
  "exStrings k =
     (if k = ''network_interface_id'' then exNicId
      else if k = ''ip_configuration_name'' then ''ipc''
      else if k = ''backend_address_pool_id'' then exPoolIdC
      else if k = ''iothub_name'' then ''h''
      else if k = ''resource_group_name'' then ''g''
      else if k = ''name'' then ''r''
      else if k = ''recovery_vault_name'' then ''v''
      else [])"

definition exData :: ResourceData where
  "exData = \<lparr>rd_Id = [], rd_IsNewResource = True, rd_String = exStrings,
     rd_Bool = (\<lambda>k. True), rd_List = (\<lambda>k. []), rd_Map = (\<lambda>k. []),
     rd_Timeout = DefaultTimeouts, rd_State = Map.empty\<rparr>"

definition exFind :: FindIPConfiguration where
  "exFind input name =
     (case input of None \<Rightarrow> None | Some cs \<Rightarrow> find (\<lambda>c. ipc_Name c = Some name) cs)"

definition exUpdate :: UpdateIPConfiguration where
  "exUpdate config configs =
     (case configs of
        None \<Rightarrow> Some []
      | Some cs \<Rightarrow>
          Some (map (\<lambda>v. if ipc_Name v = ipc_Name config then config else v)
                  (filter (\<lambda>v. ipc_Name v \<noteq> None) cs)))"

definition exPoolA :: BackendAddressPool where
  "exPoolA = \<lparr>bap_ID = None, bap_Name = Some ''a''\<rparr>"

definition exPoolB :: BackendAddressPool where
  "exPoolB = \<lparr>bap_ID = Some exPoolIdB, bap_Name = Some ''b''\<rparr>"

definition exPoolC :: BackendAddressPool where
  "exPoolC = \<lparr>bap_ID = Some exPoolIdC, bap_Name = Some ''c''\<rparr>"

definition exIPConfiguration :: "BackendAddressPool list \<Rightarrow> InterfaceIPConfiguration" where
  "exIPConfiguration pools =
     \<lparr>ipc_Name = Some ''ipc'',
      ipc_Properties = Some \<lparr>LoadBalancerBackendAddressPools = Some pools\<rparr>\<rparr>"

definition exNicProps :: "BackendAddressPool list \<Rightarrow> InterfacePropertiesFormat" where
  "exNicProps pools = \<lparr>IPConfigurations = Some [exIPConfiguration pools]\<rparr>"

definition exNic :: "BackendAddressPool list \<Rightarrow> Interface response" where
  "exNic pools =
     \<lparr>resp_value = \<lparr>nic_ID = Some exNicId, nic_Properties = Some (exNicProps pools)\<rparr>,
      resp_StatusCode = 200, resp_err = None\<rparr>"

definition exNicNotFound :: "Interface response" where
  "exNicNotFound =
     \<lparr>resp_value = \<lparr>nic_ID = None, nic_Properties = None\<rparr>,
      resp_StatusCode = 404, resp_err = Some ''StatusCode=404''\<rparr>"

text \<open>The pools of the IP configuration of the given name in the payload of an outcome.\<close>

definition submittedPools :: "string \<Rightarrow> Interface outcome \<Rightarrow> BackendAddressPool list option" where
  "submittedPools name out =
     (case sent out of
        None \<Rightarrow> None
      | Some nic \<Rightarrow>
         (case nic_Properties nic of
            None \<Rightarrow> None
          | Some props \<Rightarrow>
             (case IPConfigurations props of
                None \<Rightarrow> None
              | Some cs \<Rightarrow>
                 (case find (\<lambda>c. ipc_Name c = Some name) cs of
                    None \<Rightarrow> None
                  | Some c \<Rightarrow>
                     (case ipc_Properties c of
                        None \<Rightarrow> None
                      | Some p \<Rightarrow> LoadBalancerBackendAddressPools p)))))"

definition exRouteA :: RouteProperties where
  "exRouteA = \<lparr>rt_Name = None, rt_Source = ''DeviceMessages'', rt_Condition = None,
     rt_EndpointNames = None, rt_IsEnabled = None\<rparr>"

definition exRouteB :: RouteProperties where
  "exRouteB = \<lparr>rt_Name = Some ''b'', rt_Source = ''DeviceMessages'', rt_Condition = Some ''true'',
     rt_EndpointNames = Some [''events''], rt_IsEnabled = Some True\<rparr>"

definition exRouteR :: RouteProperties where
  "exRouteR = \<lparr>rt_Name = Some ''r'', rt_Source = ''DeviceMessages'', rt_Condition = Some ''true'',
     rt_EndpointNames = Some [''events''], rt_IsEnabled = Some True\<rparr>"

definition exRouting :: "RouteProperties list \<Rightarrow> RoutingProperties" where
  "exRouting routes = \<lparr>Routes = Some routes\<rparr>"

definition exHub :: "RouteProperties list \<Rightarrow> IotHubDescription response" where
  "exHub routes =
     \<lparr>resp_value =
        \<lparr>hub_ID = Some exHubId,
         hub_Properties = Some \<lparr>Routing = Some (exRouting routes)\<rparr>\<rparr>,
      resp_StatusCode = 200, resp_err = None\<rparr>"

definition exHubNotFound :: "IotHubDescription response" where
  "exHubNotFound =
     \<lparr>resp_value = \<lparr>hub_ID = None, hub_Properties = None\<rparr>,
      resp_StatusCode = 404, resp_err = Some ''StatusCode=404''\<rparr>"

text \<open>The routes in the payload of an outcome.\<close>

definition submittedRoutes :: "IotHubDescription outcome \<Rightarrow> RouteProperties list option" where
  "submittedRoutes out =
     (case sent out of
        None \<Rightarrow> None
      | Some hub \<Rightarrow>
         (case hub_Properties hub of
            None \<Rightarrow> None
          | Some props \<Rightarrow>
             (case Routing props of None \<Rightarrow> None | Some routing \<Rightarrow> Routes routing)))"

definition exAssociationData :: ResourceData where
  "exAssociationData = exData\<lparr>rd_Id := associationResourceId exNicId ''ipc'' exPoolIdB\<rparr>"

definition exRouteData :: ResourceData where
  "exRouteData = exData\<lparr>rd_Id := exHubId @ ''/Routes/r''\<rparr>"

definition exSubnetParsed :: SubnetId where
  "exSubnetParsed = \<lparr>sid_ResourceGroup = ''g'', sid_VirtualNetworkName = ''vnet'', sid_Name = ''sub''\<rparr>"

definition exSubnetID :: SubnetIDParser where
  "exSubnetID ident = Inr exSubnetParsed"

definition exGatewayParsed :: NatGatewayId where
  "exGatewayParsed = \<lparr>ngid_ResourceGroup = ''g'', ngid_Name = ''gw''\<rparr>"

definition exNatGatewayID :: NatGatewayIDParser where
  "exNatGatewayID ident = Inr exGatewayParsed"

definition exSubnetIdent :: string where
  "exSubnetIdent = ''/subscriptions/s/resourceGroups/g/providers/p/virtualNetworks/vnet/subnets/sub''"

definition exSubnetData :: ResourceData where
  "exSubnetData = exData\<lparr>rd_Id := exSubnetIdent\<rparr>"

definition exSubnet :: "SubResource option \<Rightarrow> Subnet response" where
  "exSubnet gateway =
     \<lparr>resp_value = \<lparr>sn_ID = Some exSubnetIdent,
                     sn_Properties = Some \<lparr>NatGateway = gateway\<rparr>\<rparr>,
      resp_StatusCode = 200, resp_err = None\<rparr>"

definition exSubnetNotFound :: "Subnet response" where
  "exSubnetNotFound =
     \<lparr>resp_value = \<lparr>sn_ID = None, sn_Properties = None\<rparr>,
      resp_StatusCode = 404, resp_err = Some ''StatusCode=404''\<rparr>"

definition exGroupIdent :: string where
  "exGroupIdent = ''/subscriptions/s/resourceGroups/r''"

definition exGroup :: "Group response" where
  "exGroup =
     \<lparr>resp_value = \<lparr>grp_ID = Some exGroupIdent, grp_Name = Some ''r'',
                     grp_Location = Some ''westeurope'', grp_Tags = []\<rparr>,
      resp_StatusCode = 200, resp_err = None\<rparr>"

definition exResourceGroupID :: ResourceGroupIDParser where
  "exResourceGroupID ident = Inr \<lparr>rgid_SubscriptionId = ''s'', rgid_ResourceGroup = ''r''\<rparr>"

definition exFlattenAndSet :: FlattenAndSet where
  "exFlattenAndSet d t = (None, d)"

definition exNormalizeNilable :: "string option \<Rightarrow> string" where
  "exNormalizeNilable input = (case input of None \<Rightarrow> [] | Some v \<Rightarrow> v)"

definition exScaleSetParsed :: VirtualMachineScaleSetId where
  "exScaleSetParsed = \<lparr>vmssid_ResourceGroup = ''g'', vmssid_Name = ''vmss''\<rparr>"

definition exVirtualMachineScaleSetID :: VirtualMachineScaleSetIDParser where
  "exVirtualMachineScaleSetID ident = Inr exScaleSetParsed"

definition exVirtualMachineScaleSetExtensionID :: VirtualMachineScaleSetExtensionIDParser where
  "exVirtualMachineScaleSetExtensionID ident =
     Inr \<lparr>extid_ResourceGroup = ''g'', extid_VirtualMachineScaleSetName = ''vmss'',
          extid_ExtensionName = ''r''\<rparr>"

definition exExpandJson :: ExpandJsonFromString where
  "exExpandJson input = Inr []"

definition exFlattenJson :: FlattenJsonToString where
  "exFlattenJson input = Inr ''{}''"

definition exExtensionIdent :: string where
  "exExtensionIdent = ''/subscriptions/s/resourceGroups/g/providers/p/virtualMachineScaleSets/vmss/extensions/r''"

definition exExtension :: "VirtualMachineScaleSetExtension response" where
  "exExtension =
     \<lparr>resp_value = \<lparr>ext_ID = Some exExtensionIdent, ext_Name = Some ''r'', ext_Properties = None\<rparr>,
      resp_StatusCode = 200, resp_err = None\<rparr>"

definition exScaleSet :: "VirtualMachineScaleSet response" where
  "exScaleSet = \<lparr>resp_value = \<lparr>vmss_ID = Some ''vmss''\<rparr>, resp_StatusCode = 200, resp_err = None\<rparr>"

definition exContainerIdent :: string where
  "exContainerIdent = ''/subscriptions/s/resourceGroups/g/providers/p/vaults/v/backupFabrics/Azure/protectionContainers/c''"

definition exContainer :: "ProtectionContainerResource response" where
  "exContainer =
     \<lparr>resp_value = \<lparr>pc_ID = Some exContainerIdent, pc_Properties = OtherContainer\<rparr>,
      resp_StatusCode = 200, resp_err = None\<rparr>"

definition exContainerNotFound :: "ProtectionContainerResource response" where
  "exContainerNotFound =
     \<lparr>resp_value = \<lparr>pc_ID = None, pc_Properties = NoContainer\<rparr>,
      resp_StatusCode = 404, resp_err = Some ''StatusCode=404''\<rparr>"

definition exRegisterFailed :: "ProtectionContainerResource response" where
  "exRegisterFailed =
     \<lparr>resp_value = \<lparr>pc_ID = None, pc_Properties = NoContainer\<rparr>,
      resp_StatusCode = 500, resp_err = Some ''StatusCode=500''\<rparr>"

definition exPolled :: "nat \<Rightarrow> string option \<times> string option" where
  "exPolled stateTimeout = (Some ''Succeeded'', None)"

definition exNicEmpty :: "Interface response" where
  "exNicEmpty =
     \<lparr>resp_value = \<lparr>nic_ID = Some exNicId, nic_Properties = Some \<lparr>IPConfigurations = Some []\<rparr>\<rparr>,
      resp_StatusCode = 200, resp_err = None\<rparr>"

definition exNewPool :: BackendAddressPool where
  "exNewPool = \<lparr>bap_ID = Some exPoolIdC, bap_Name = None\<rparr>"





text \<open>
  Modelled from the spec: \<^verbatim>\<open>azure.ParseAzureResourceID\<close> is not among the sources.
  Section 3 of the specification: a resource identifier is a composite key (parent scope
  + type + name [+ sub-path segments]) serialized to one string. Section 4.1: decoding
  fails when its input does not match the expected segment count or pattern.
  The model reads the identifier as a leading \<open>/\<close> followed by segments separated by
  \<open>/\<close>, which come in pairs of a key and a name, none of them empty; the parent scope is
  the name at the key \<open>resourceGroups\<close>, and the path maps every key to its name, a later
  pair for a key replacing an earlier one.
\<close>

fun pairSegments :: "string list \<Rightarrow> (string \<times> string) list option" where
  "pairSegments [] = Some []"
| "pairSegments [k] = None"
| "pairSegments (k # v # rest) =
     (if k = [] \<or> v = [] then None
      else map_option (\<lambda>pairs. (k, v) # pairs) (pairSegments rest))"

definition specParseAzureResourceID :: AzureIDParser where
  "specParseAzureResourceID ident =
     (case strings_Split ident (CHR ''/'') of
        [] \<Rightarrow> Inl ''malformed resource ID''
      | first # components \<Rightarrow>
          if first \<noteq> [] then Inl ''malformed resource ID''
          else (case pairSegments components of
                  None \<Rightarrow> Inl ''malformed resource ID''
                | Some pairs \<Rightarrow>
                    Inr \<lparr>rid_ResourceGroup =
                           (case map_of (rev pairs) ''resourceGroups'' of
                              None \<Rightarrow> [] | Some g \<Rightarrow> g),
                         rid_Path = map_of (rev pairs)\<rparr>))"

definition exNicParsed :: ResourceID where
  "exNicParsed =
     \<lparr>rid_ResourceGroup = ''g'',
      rid_Path = map_of [(''networkInterfaces'', ''n''), (''providers'', ''p''),
                         (''resourceGroups'', ''g''), (''subscriptions'', ''s'')]\<rparr>"

section \<open>Auxiliary facts\<close>

lemmas ex_defs2 = exAssociationData_def exRouteData_def exSubnetParsed_def exSubnetID_def
  exGatewayParsed_def exNatGatewayID_def exSubnetIdent_def exSubnetData_def exSubnet_def
  exSubnetNotFound_def exGroupIdent_def exGroup_def exResourceGroupID_def exFlattenAndSet_def
  exNormalizeNilable_def exScaleSetParsed_def exVirtualMachineScaleSetID_def
  exVirtualMachineScaleSetExtensionID_def exExpandJson_def exFlattenJson_def exExtensionIdent_def
  exExtension_def exScaleSet_def exContainerIdent_def exContainer_def exContainerNotFound_def
  exRegisterFailed_def exPolled_def

lemmas ex_defs = exNicId_def exPoolIdB_def exPoolIdC_def exHubId_def exParsed_def exParse_def
  exStrings_def exData_def exFind_def exUpdate_def exPoolA_def exPoolB_def exPoolC_def exNic_def
  exNicNotFound_def exIPConfiguration_def exNicProps_def exRouting_def submittedPools_def exRouteA_def exRouteB_def exRouteR_def exHub_def
  exHubNotFound_def exNicEmpty_def exNewPool_def submittedRoutes_def

lemmas base_defs = failed_def done_ok_def SetId_def Set_attr_def ForCreate_def ForRead_def
  ForDelete_def ForUpdate_def ForCreateUpdate_def ResponseWasNotFound_def PathAt_def Let_def

lemma strings_Split_ne: "strings_Split s sep \<noteq> []"
  by (induction s) (auto split: list.splits)

lemma strings_Split_absent: "sep \<notin> set s \<Longrightarrow> strings_Split s sep = [s]"
  by (induction s) auto

lemma strings_Split_first:
  "sep \<notin> set s \<Longrightarrow> strings_Split (s @ sep # t) sep = s # strings_Split t sep"
  by (induction s) auto

lemma associationResourceId_split:
  assumes "CHR ''|'' \<notin> set networkInterfaceId" "CHR ''|'' \<notin> set ipConfigurationName"
    "CHR ''|'' \<notin> set backendAddressPoolId"
  shows "strings_Split (associationResourceId networkInterfaceId ipConfigurationName
            backendAddressPoolId) (CHR ''|'')
     = [networkInterfaceId @ ''/ipConfigurations/'' @ ipConfigurationName, backendAddressPoolId]"
proof -
  have "CHR ''|'' \<notin> set (networkInterfaceId @ ''/ipConfigurations/'' @ ipConfigurationName)"
    using assms by simp
  from strings_Split_first[OF this, of backendAddressPoolId]
  show ?thesis using assms(3) by (simp add: associationResourceId_def strings_Split_absent)
qed

lemma appendExistingPools_eq:
  "appendExistingPools resourceId b xs acc =
     (if \<exists>x\<in>set xs. bap_ID x = Some b
      then Inl (ImportAsExistsError ''azurerm_network_interface_backend_address_pool_association'' resourceId)
      else Inr (acc @ filter (\<lambda>x. bap_ID x \<noteq> None) xs))"
  by (induction xs arbitrary: acc) (auto split: option.splits)

lemma retainOtherPools_eq:
  "retainOtherPools b xs acc = acc @ filter (\<lambda>x. bap_ID x \<noteq> None \<and> bap_ID x \<noteq> Some b) xs"
  by (induction xs arbitrary: acc) (auto split: option.splits)


lemma retainOtherRoutes_eq:
  "retainOtherRoutes EqualFold n xs acc =
     acc @ filter (\<lambda>r. rt_Name r \<noteq> None \<and> \<not> namedLike EqualFold n r) xs"
  by (induction xs arbitrary: acc) (auto split: option.splits simp: namedLike_def)

lemma mergeRoutes_new:
  "mergeRoutes EqualFold True resourceId n route xs acc ae =
     (if \<exists>r\<in>set xs. namedLike EqualFold n r
      then Inl (ImportAsExistsError ''azurerm_iothub_route'' resourceId)
      else Inr (acc @ filter (\<lambda>r. rt_Name r \<noteq> None) xs, ae))"
  by (induction xs arbitrary: acc) (auto split: option.splits simp: namedLike_def)


section \<open>The claims\<close>

lemma strings_Split_append:
  "strings_Split (s @ sep # t) sep = strings_Split s sep @ strings_Split t sep"
proof (induction s)
  case Nil
  show ?case by simp
next
  case (Cons c s)
  then show ?case
    by (cases "strings_Split s sep") (auto simp: strings_Split_ne)
qed

lemma pairSegments_append:
  "k \<noteq> [] \<Longrightarrow> v \<noteq> [] \<Longrightarrow>
   pairSegments (segments @ [k, v]) = map_option (\<lambda>pairs. pairs @ [(k, v)]) (pairSegments segments)"
  by (induction segments rule: pairSegments.induct) (auto simp: option.map_comp comp_def)

lemma composite_split:
  assumes "CHR ''/'' \<notin> set name"
  shows "strings_Split (nic @ ''/ipConfigurations/'' @ name) (CHR ''/'')
     = strings_Split nic (CHR ''/'') @ [''ipConfigurations'', name]"
proof -
  have a: "nic @ ''/ipConfigurations/'' @ name = nic @ CHR ''/'' # (''ipConfigurations'' @ CHR ''/'' # name)"
    by simp
  have b: "strings_Split (''ipConfigurations'' @ CHR ''/'' # name) (CHR ''/'') = [''ipConfigurations'', name]"
    using assms by (simp add: strings_Split_absent)
  show ?thesis
    unfolding a strings_Split_append [of nic] b ..
qed

lemma specParse_composite:
  assumes "specParseAzureResourceID nic = Inr parsed" "CHR ''/'' \<notin> set name" "name \<noteq> []"
  shows "\<exists>composite. specParseAzureResourceID (nic @ ''/ipConfigurations/'' @ name) = Inr composite
     \<and> PathAt composite ''ipConfigurations'' = name
     \<and> PathAt composite ''networkInterfaces'' = PathAt parsed ''networkInterfaces''
     \<and> rid_ResourceGroup composite = rid_ResourceGroup parsed"
proof -
  from assms(1) obtain components pairs where
      s: "strings_Split nic (CHR ''/'') = [] # components"
      and p: "pairSegments components = Some pairs"
      and r: "parsed = \<lparr>rid_ResourceGroup =
                           (case map_of (rev pairs) ''resourceGroups'' of
                              None \<Rightarrow> [] | Some g \<Rightarrow> g),
                         rid_Path = map_of (rev pairs)\<rparr>"
    by (auto simp: specParseAzureResourceID_def split: list.splits if_splits option.splits)
  have q: "pairSegments (components @ [''ipConfigurations'', name])
      = Some (pairs @ [(''ipConfigurations'', name)])"
    using assms(3) p by (simp add: pairSegments_append)
  have c: "strings_Split (nic @ ''/ipConfigurations/'' @ name) (CHR ''/'')
      = [] # (components @ [''ipConfigurations'', name])"
    unfolding composite_split [OF assms(2)] s by simp
  show ?thesis
    unfolding specParseAzureResourceID_def c
    using q r by (simp add: PathAt_def)
qed

lemma specParse_example: "specParseAzureResourceID exNicId = Inr exNicParsed"
  by (simp add: specParseAzureResourceID_def exNicId_def exNicParsed_def)

text \<open>
  C7, as amended. Let the network interface identifier be a well-formed resource
  identifier, the IP configuration name not empty and without \<open>/\<close>, and let none of the
  three fields contain the separator \<open>|\<close>. Then the identifier that Create builds splits
  at \<open>|\<close> into two segments, and the decoding of Read and Delete recovers the IP
  configuration name and the pool identifier as they were given, and the interface name
  and the resource group that the network interface identifier denotes. Two such tuples
  with the same identifier are the same tuple. An identifier that does not split into two
  segments is rejected with the error that names the expected format.
\<close>

theorem association_id_roundtrip:
  "(CHR ''|'' \<notin> set networkInterfaceId \<and> CHR ''|'' \<notin> set ipConfigurationName
      \<and> CHR ''|'' \<notin> set backendAddressPoolId
      \<and> CHR ''/'' \<notin> set ipConfigurationName \<and> ipConfigurationName \<noteq> []
      \<and> specParseAzureResourceID networkInterfaceId = Inr parsed \<longrightarrow>
     strings_Split (associationResourceId networkInterfaceId ipConfigurationName backendAddressPoolId) (CHR ''|'')
       = [networkInterfaceId @ ''/ipConfigurations/'' @ ipConfigurationName, backendAddressPoolId]
     \<and> parseAssociationId specParseAzureResourceID
         (associationResourceId networkInterfaceId ipConfigurationName backendAddressPoolId)
       = Inr (ipConfigurationName, PathAt parsed ''networkInterfaces'',
              rid_ResourceGroup parsed, backendAddressPoolId))
   \<and> (CHR ''|'' \<notin> set networkInterfaceId \<and> CHR ''|'' \<notin> set ipConfigurationName
      \<and> CHR ''|'' \<notin> set backendAddressPoolId \<and> CHR ''/'' \<notin> set ipConfigurationName
      \<and> CHR ''|'' \<notin> set otherInterfaceId \<and> CHR ''|'' \<notin> set otherName
      \<and> CHR ''|'' \<notin> set otherPoolId \<and> CHR ''/'' \<notin> set otherName
      \<and> associationResourceId networkInterfaceId ipConfigurationName backendAddressPoolId
          = associationResourceId otherInterfaceId otherName otherPoolId \<longrightarrow>
     networkInterfaceId = otherInterfaceId \<and> ipConfigurationName = otherName
     \<and> backendAddressPoolId = otherPoolId)
   \<and> (length (strings_Split ident (CHR ''|'')) \<noteq> 2 \<longrightarrow>
        parseAssociationId ParseAzureResourceID ident =
          Inl (Errorf ''Expected ID to be in the format {networkInterfaceId}/ipConfigurations/{ipConfigurationName}|{backendAddressPoolId} but got %q'' [ident]))"
proof -
  have recover: "CHR ''|'' \<notin> set networkInterfaceId \<and> CHR ''|'' \<notin> set ipConfigurationName
      \<and> CHR ''|'' \<notin> set backendAddressPoolId
      \<and> CHR ''/'' \<notin> set ipConfigurationName \<and> ipConfigurationName \<noteq> []
      \<and> specParseAzureResourceID networkInterfaceId = Inr parsed \<longrightarrow>
     strings_Split (associationResourceId networkInterfaceId ipConfigurationName backendAddressPoolId) (CHR ''|'')
       = [networkInterfaceId @ ''/ipConfigurations/'' @ ipConfigurationName, backendAddressPoolId]
     \<and> parseAssociationId specParseAzureResourceID
         (associationResourceId networkInterfaceId ipConfigurationName backendAddressPoolId)
       = Inr (ipConfigurationName, PathAt parsed ''networkInterfaces'',
              rid_ResourceGroup parsed, backendAddressPoolId)"
  proof (intro impI, elim conjE)
    assume bar: "CHR ''|'' \<notin> set networkInterfaceId" "CHR ''|'' \<notin> set ipConfigurationName"
        "CHR ''|'' \<notin> set backendAddressPoolId"
      and name: "CHR ''/'' \<notin> set ipConfigurationName" "ipConfigurationName \<noteq> []"
      and nic: "specParseAzureResourceID networkInterfaceId = Inr parsed"
    note split = associationResourceId_split [OF bar]
    from specParse_composite [OF nic name] obtain composite where
        c: "specParseAzureResourceID (networkInterfaceId @ ''/ipConfigurations/'' @ ipConfigurationName)
              = Inr composite"
          "PathAt composite ''ipConfigurations'' = ipConfigurationName"
          "PathAt composite ''networkInterfaces'' = PathAt parsed ''networkInterfaces''"
          "rid_ResourceGroup composite = rid_ResourceGroup parsed"
      by blast
    have "parseAssociationId specParseAzureResourceID
         (associationResourceId networkInterfaceId ipConfigurationName backendAddressPoolId)
       = Inr (ipConfigurationName, PathAt parsed ''networkInterfaces'',
              rid_ResourceGroup parsed, backendAddressPoolId)"
      unfolding parseAssociationId_def split Let_def
      using c by (simp add: nth_Cons')
    with split show "strings_Split (associationResourceId networkInterfaceId ipConfigurationName backendAddressPoolId) (CHR ''|'')
       = [networkInterfaceId @ ''/ipConfigurations/'' @ ipConfigurationName, backendAddressPoolId]
     \<and> parseAssociationId specParseAzureResourceID
         (associationResourceId networkInterfaceId ipConfigurationName backendAddressPoolId)
       = Inr (ipConfigurationName, PathAt parsed ''networkInterfaces'',
              rid_ResourceGroup parsed, backendAddressPoolId)"
      by blast
  qed
  have injective: "CHR ''|'' \<notin> set networkInterfaceId \<and> CHR ''|'' \<notin> set ipConfigurationName
      \<and> CHR ''|'' \<notin> set backendAddressPoolId \<and> CHR ''/'' \<notin> set ipConfigurationName
      \<and> CHR ''|'' \<notin> set otherInterfaceId \<and> CHR ''|'' \<notin> set otherName
      \<and> CHR ''|'' \<notin> set otherPoolId \<and> CHR ''/'' \<notin> set otherName
      \<and> associationResourceId networkInterfaceId ipConfigurationName backendAddressPoolId
          = associationResourceId otherInterfaceId otherName otherPoolId \<longrightarrow>
     networkInterfaceId = otherInterfaceId \<and> ipConfigurationName = otherName
     \<and> backendAddressPoolId = otherPoolId"
  proof (intro impI, elim conjE)
    assume bar: "CHR ''|'' \<notin> set networkInterfaceId" "CHR ''|'' \<notin> set ipConfigurationName"
        "CHR ''|'' \<notin> set backendAddressPoolId"
      and bar': "CHR ''|'' \<notin> set otherInterfaceId" "CHR ''|'' \<notin> set otherName"
        "CHR ''|'' \<notin> set otherPoolId"
      and slash: "CHR ''/'' \<notin> set ipConfigurationName" "CHR ''/'' \<notin> set otherName"
      and eq: "associationResourceId networkInterfaceId ipConfigurationName backendAddressPoolId
          = associationResourceId otherInterfaceId otherName otherPoolId"
    from associationResourceId_split [OF bar] associationResourceId_split [OF bar'] eq
    have both: "[networkInterfaceId @ ''/ipConfigurations/'' @ ipConfigurationName, backendAddressPoolId]
        = [otherInterfaceId @ ''/ipConfigurations/'' @ otherName, otherPoolId]"
      by metis
    then have comp: "networkInterfaceId @ ''/ipConfigurations/'' @ ipConfigurationName
        = otherInterfaceId @ ''/ipConfigurations/'' @ otherName"
      and pool: "backendAddressPoolId = otherPoolId"
      by blast+
    from comp composite_split [OF slash(1), of networkInterfaceId]
      composite_split [OF slash(2), of otherInterfaceId]
    have "strings_Split networkInterfaceId (CHR ''/'') @ [''ipConfigurations'', ipConfigurationName]
        = strings_Split otherInterfaceId (CHR ''/'') @ [''ipConfigurations'', otherName]"
      by metis
    then have name: "ipConfigurationName = otherName"
      by simp
    with comp have "networkInterfaceId = otherInterfaceId"
      by simp
    with name pool show "networkInterfaceId = otherInterfaceId \<and> ipConfigurationName = otherName
     \<and> backendAddressPoolId = otherPoolId"
      by blast
  qed
  have reject: "length (strings_Split ident (CHR ''|'')) \<noteq> 2 \<longrightarrow>
        parseAssociationId ParseAzureResourceID ident =
          Inl (Errorf ''Expected ID to be in the format {networkInterfaceId}/ipConfigurations/{ipConfigurationName}|{backendAddressPoolId} but got %q'' [ident])"
    by (simp add: parseAssociationId_def Let_def)
  from recover injective reject show ?thesis by blast
qed

theorem association_id_roundtrip_witness:
  "specParseAzureResourceID exNicId = Inr exNicParsed
   \<and> parseAssociationId specParseAzureResourceID (associationResourceId exNicId ''ipc'' exPoolIdC)
       = Inr (''ipc'', ''n'', ''g'', exPoolIdC)
   \<and> length (strings_Split ''no-separator'' (CHR ''|'')) \<noteq> 2
   \<and> parseAssociationId specParseAzureResourceID ''no-separator'' =
        Inl (Errorf ''Expected ID to be in the format {networkInterfaceId}/ipConfigurations/{ipConfigurationName}|{backendAddressPoolId} but got %q'' [''no-separator''])"
proof -
  have h0: "CHR ''|'' \<notin> set exNicId \<and> CHR ''|'' \<notin> set ''ipc'' \<and> CHR ''|'' \<notin> set exPoolIdC
      \<and> CHR ''/'' \<notin> set ''ipc'' \<and> ''ipc'' \<noteq> []"
    by (simp add: exNicId_def exPoolIdC_def)
  from h0 specParse_example
  have h: "CHR ''|'' \<notin> set exNicId \<and> CHR ''|'' \<notin> set ''ipc'' \<and> CHR ''|'' \<notin> set exPoolIdC
      \<and> CHR ''/'' \<notin> set ''ipc'' \<and> ''ipc'' \<noteq> []
      \<and> specParseAzureResourceID exNicId = Inr exNicParsed"
    by blast
  have j: "CHR ''|'' \<notin> set exNicId \<and> CHR ''|'' \<notin> set ''ipc''
      \<and> CHR ''|'' \<notin> set exPoolIdC \<and> CHR ''/'' \<notin> set ''ipc''
      \<and> CHR ''|'' \<notin> set exNicId \<and> CHR ''|'' \<notin> set ''ipc''
      \<and> CHR ''|'' \<notin> set exPoolIdC \<and> CHR ''/'' \<notin> set ''ipc''
      \<and> associationResourceId exNicId ''ipc'' exPoolIdC = associationResourceId exNicId ''ipc'' exPoolIdC"
    by (simp add: exNicId_def exPoolIdC_def)
  have l: "length (strings_Split ''no-separator'' (CHR ''|'')) \<noteq> 2"
    by simp
  note t = association_id_roundtrip [where networkInterfaceId = exNicId
      and ipConfigurationName = "''ipc''" and backendAddressPoolId = exPoolIdC
      and parsed = exNicParsed and otherInterfaceId = exNicId and otherName = "''ipc''"
      and otherPoolId = exPoolIdC and ident = "''no-separator''"
      and ParseAzureResourceID = specParseAzureResourceID]
  have r1: "parseAssociationId specParseAzureResourceID (associationResourceId exNicId ''ipc'' exPoolIdC)
       = Inr (''ipc'', PathAt exNicParsed ''networkInterfaces'', rid_ResourceGroup exNicParsed, exPoolIdC)"
    by (rule t [THEN conjunct1, THEN mp, OF h, THEN conjunct2])
  have r2: "exNicId = exNicId \<and> ''ipc'' = ''ipc'' \<and> exPoolIdC = exPoolIdC"
    by (rule t [THEN conjunct2, THEN conjunct1, THEN mp, OF j])
  have r3: "parseAssociationId specParseAzureResourceID ''no-separator'' =
        Inl (Errorf ''Expected ID to be in the format {networkInterfaceId}/ipConfigurations/{ipConfigurationName}|{backendAddressPoolId} but got %q'' [''no-separator''])"
    by (rule t [THEN conjunct2, THEN conjunct2, THEN mp, OF l])
  have v: "PathAt exNicParsed ''networkInterfaces'' = ''n'' \<and> rid_ResourceGroup exNicParsed = ''g''"
    by (simp add: exNicParsed_def PathAt_def)
  from v r1 have r1': "parseAssociationId specParseAzureResourceID
         (associationResourceId exNicId ''ipc'' exPoolIdC)
       = Inr (''ipc'', ''n'', ''g'', exPoolIdC)"
    by simp
  from r1' r3 l specParse_example show ?thesis
    by blast
qed

text \<open>
  C7, as stated, fails. The schema accepts every IP configuration name that is not empty.
  For the name \<open>a|b\<close> the identifier that Create builds has three segments, and for the
  name \<open>a/b\<close> its first segment is not a resource identifier: Read and Delete reject
  both.
\<close>

theorem association_id_roundtrip_counterexample:
  "specParseAzureResourceID exNicId = Inr exNicParsed
   \<and> strings_Split (associationResourceId exNicId ''a|b'' exPoolIdC) (CHR ''|'')
     = [exNicId @ ''/ipConfigurations/a'', ''b'', exPoolIdC]
   \<and> parseAssociationId specParseAzureResourceID (associationResourceId exNicId ''a|b'' exPoolIdC)
     = Inl (Errorf ''Expected ID to be in the format {networkInterfaceId}/ipConfigurations/{ipConfigurationName}|{backendAddressPoolId} but got %q''
              [associationResourceId exNicId ''a|b'' exPoolIdC])
   \<and> parseAssociationId specParseAzureResourceID (associationResourceId exNicId ''a/b'' exPoolIdC)
     = Inl (Propagated ''malformed resource ID'')"
proof -
  have s: "strings_Split (associationResourceId exNicId ''a|b'' exPoolIdC) (CHR ''|'')
     = [exNicId @ ''/ipConfigurations/a'', ''b'', exPoolIdC]"
    by (simp add: associationResourceId_def exNicId_def exPoolIdC_def)
  have a: "parseAssociationId specParseAzureResourceID (associationResourceId exNicId ''a|b'' exPoolIdC)
     = Inl (Errorf ''Expected ID to be in the format {networkInterfaceId}/ipConfigurations/{ipConfigurationName}|{backendAddressPoolId} but got %q''
              [associationResourceId exNicId ''a|b'' exPoolIdC])"
    by (simp add: parseAssociationId_def s)
  have u: "strings_Split (associationResourceId exNicId ''a/b'' exPoolIdC) (CHR ''|'')
     = [exNicId @ ''/ipConfigurations/a/b'', exPoolIdC]"
    by (simp add: associationResourceId_def exNicId_def exPoolIdC_def)
  have w: "specParseAzureResourceID (exNicId @ ''/ipConfigurations/a/b'') = Inl ''malformed resource ID''"
    by (simp add: specParseAzureResourceID_def exNicId_def)
  have b: "parseAssociationId specParseAzureResourceID (associationResourceId exNicId ''a/b'' exPoolIdC)
     = Inl (Propagated ''malformed resource ID'')"
    by (simp add: parseAssociationId_def u w)
  from s a b specParse_example show ?thesis
    by blast
qed

text \<open>
  C6. A Create whose parent must exist fails, when the fetch of the parent reports "not
  found", with the error that names the parent; nothing is submitted and the resource data
  is as before. This is the network interface association, the subnet association and the
  IoT Hub route.
\<close>

theorem create_parent_not_found:
  "(ParseAzureResourceID (rd_String d ''network_interface_id'') = Inr ident \<and>
    resp_err read = Some err \<and> ResponseWasNotFound read \<longrightarrow>
      resourceNetworkInterfaceBackendAddressPoolAssociationCreate ParseAzureResourceID
          FindNetworkInterfaceIPConfiguration updateNetworkInterfaceIPConfiguration
          d read put_err wait_err reread
        = failed (ForCreate d) d
            (Errorf ''Network Interface %q (Resource Group %q) was not found!''
               [PathAt ident ''networkInterfaces'', rid_ResourceGroup ident]))
 \<and> (SubnetID (rd_String d ''subnet_id'') = Inr parsedSubnetId \<and>
    NatGatewayID (rd_String d ''nat_gateway_id'') = Inr parsedGatewayId \<and>
    resp_err subnet = Some err \<and> ResponseWasNotFound subnet \<longrightarrow>
      resourceSubnetNatGatewayAssociationCreate SubnetID NatGatewayID d subnet put_err wait_err
          sread resubnet
        = failed (ForCreate d) d
            (Errorf ''Subnet %q (Virtual Network %q / Resource Group %q) was not found!''
               [sid_Name parsedSubnetId, sid_VirtualNetworkName parsedSubnetId,
                sid_ResourceGroup parsedSubnetId]))
 \<and> (resp_err iothub = Some err \<and> ResponseWasNotFound iothub \<longrightarrow>
      resourceIotHubRouteCreateUpdate ParseAzureResourceID EqualFold d iothub put_err wait_err rehub
        = failed (ForCreateUpdate d) d
            (Errorf ''IotHub %q (Resource Group %q) was not found''
               [rd_String d ''iothub_name'', rd_String d ''resource_group_name'']))"
  by (simp add: resourceNetworkInterfaceBackendAddressPoolAssociationCreate_def
        resourceSubnetNatGatewayAssociationCreate_def resourceIotHubRouteCreateUpdate_def Let_def)

theorem create_parent_not_found_witness:
  "resp_err exNicNotFound = Some ''StatusCode=404'' \<and> ResponseWasNotFound exNicNotFound
   \<and> resourceNetworkInterfaceBackendAddressPoolAssociationCreate exParse exFind exUpdate
         exData exNicNotFound None None exNicNotFound
       = failed (ForCreate exData) exData
           (Errorf ''Network Interface %q (Resource Group %q) was not found!''
              [PathAt exParsed ''networkInterfaces'', rid_ResourceGroup exParsed])
   \<and> resp_err exSubnetNotFound = Some ''StatusCode=404'' \<and> ResponseWasNotFound exSubnetNotFound
   \<and> resourceSubnetNatGatewayAssociationCreate exSubnetID exNatGatewayID exData
         exSubnetNotFound None None exSubnetNotFound exSubnetNotFound
       = failed (ForCreate exData) exData
           (Errorf ''Subnet %q (Virtual Network %q / Resource Group %q) was not found!''
              [sid_Name exSubnetParsed, sid_VirtualNetworkName exSubnetParsed,
               sid_ResourceGroup exSubnetParsed])
   \<and> resp_err exHubNotFound = Some ''StatusCode=404'' \<and> ResponseWasNotFound exHubNotFound
   \<and> resourceIotHubRouteCreateUpdate exParse (=) exData exHubNotFound None None exHubNotFound
       = failed (ForCreateUpdate exData) exData
           (Errorf ''IotHub %q (Resource Group %q) was not found''
              [rd_String exData ''iothub_name'', rd_String exData ''resource_group_name''])"
proof -
  have h1: "exParse (rd_String exData ''network_interface_id'') = Inr exParsed
      \<and> resp_err exNicNotFound = Some ''StatusCode=404'' \<and> ResponseWasNotFound exNicNotFound"
    by (simp add: exParse_def exNicNotFound_def ResponseWasNotFound_def)
  have h2: "exSubnetID (rd_String exData ''subnet_id'') = Inr exSubnetParsed
      \<and> exNatGatewayID (rd_String exData ''nat_gateway_id'') = Inr exGatewayParsed
      \<and> resp_err exSubnetNotFound = Some ''StatusCode=404'' \<and> ResponseWasNotFound exSubnetNotFound"
    by (simp add: exSubnetID_def exNatGatewayID_def exSubnetNotFound_def ResponseWasNotFound_def)
  have h3: "resp_err exHubNotFound = Some ''StatusCode=404'' \<and> ResponseWasNotFound exHubNotFound"
    by (simp add: exHubNotFound_def ResponseWasNotFound_def)
  note t = create_parent_not_found [where ParseAzureResourceID = exParse and d = exData
      and ident = exParsed and read = exNicNotFound and err = "''StatusCode=404''"
      and FindNetworkInterfaceIPConfiguration = exFind
      and updateNetworkInterfaceIPConfiguration = exUpdate and put_err = None and wait_err = None
      and reread = exNicNotFound and SubnetID = exSubnetID and parsedSubnetId = exSubnetParsed
      and NatGatewayID = exNatGatewayID and parsedGatewayId = exGatewayParsed
      and subnet = exSubnetNotFound and sread = exSubnetNotFound and resubnet = exSubnetNotFound
      and iothub = exHubNotFound and EqualFold = "(=)" and rehub = exHubNotFound]
  from t h1 h2 h3 show ?thesis
    by blast
qed

text \<open>
  C4. A Create whose existence check finds the object fails with the "already exists"
  error that carries the identifier; nothing is submitted and the resource data is as
  before. For the network interface association the check is the search of the pools of
  the IP configuration for the pool identifier, for the resource group and the scale set
  extension it is the fetch of the object itself.
\<close>

theorem create_existing_conflict:
  "(ParseAzureResourceID (rd_String d ''network_interface_id'') = Inr ident \<and>
    resp_err read = None \<and> nic_Properties (resp_value read) = Some props \<and>
    IPConfigurations props = Some ipConfigs \<and>
    FindNetworkInterfaceIPConfiguration (Some ipConfigs) (rd_String d ''ip_configuration_name'')
      = Some config \<and>
    ipc_Properties config = Some p \<and> LoadBalancerBackendAddressPools p = Some pools \<and>
    (\<exists>x\<in>set pools. bap_ID x = Some (rd_String d ''backend_address_pool_id'')) \<longrightarrow>
      resourceNetworkInterfaceBackendAddressPoolAssociationCreate ParseAzureResourceID
          FindNetworkInterfaceIPConfiguration updateNetworkInterfaceIPConfiguration
          d read put_err wait_err reread
        = failed (ForCreate d) d
            (ImportAsExistsError ''azurerm_network_interface_backend_address_pool_association''
               (associationResourceId (rd_String d ''network_interface_id'')
                  (rd_String d ''ip_configuration_name'') (rd_String d ''backend_address_pool_id''))))
 \<and> (rd_IsNewResource d \<and> resp_err existing = None \<and>
    grp_ID (resp_value existing) = Some gid \<and> gid \<noteq> [] \<longrightarrow>
      resourceResourceGroupCreateUpdate Normalize NormalizeNilable ResourceGroupID FlattenAndSet
          d existing put_err resp regroup
        = failed (ForCreateUpdate d) d (ImportAsExistsError ''azurerm_resource_group'' gid))
 \<and> (VirtualMachineScaleSetID (rd_String d ''virtual_machine_scale_set_id'') = Inr vid \<and>
    resp_err found = None \<and> \<not> ResponseWasNotFound found \<and>
    ext_ID (resp_value found) = Some eid \<longrightarrow>
      resourceVirtualMachineScaleSetExtensionCreate VirtualMachineScaleSetID
          VirtualMachineScaleSetExtensionID ExpandJsonFromString FlattenJsonToString
          d found put_err wait_err created vmss reext
        = failed (ForCreate d) d
            (ImportAsExistsError ''azurerm_virtual_machine_scale_set_extension'' eid))"
  by (simp add: resourceNetworkInterfaceBackendAddressPoolAssociationCreate_def
        resourceResourceGroupCreateUpdate_def resourceVirtualMachineScaleSetExtensionCreate_def
        checkExistingGroup_def appendExistingPools_eq Let_def)

theorem create_existing_conflict_witness:
  "(\<exists>x\<in>set [exPoolA, exPoolC]. bap_ID x = Some (rd_String exData ''backend_address_pool_id''))
   \<and> resourceNetworkInterfaceBackendAddressPoolAssociationCreate exParse exFind exUpdate
         exData (exNic [exPoolA, exPoolC]) None None (exNic [exPoolA, exPoolC])
       = failed (ForCreate exData) exData
           (ImportAsExistsError ''azurerm_network_interface_backend_address_pool_association''
              (associationResourceId (rd_String exData ''network_interface_id'')
                 (rd_String exData ''ip_configuration_name'')
                 (rd_String exData ''backend_address_pool_id'')))
   \<and> rd_IsNewResource exData \<and> resp_err exGroup = None
   \<and> grp_ID (resp_value exGroup) = Some exGroupIdent \<and> exGroupIdent \<noteq> []
   \<and> resourceResourceGroupCreateUpdate id exNormalizeNilable exResourceGroupID exFlattenAndSet
         exData exGroup None exGroup exGroup
       = failed (ForCreateUpdate exData) exData
           (ImportAsExistsError ''azurerm_resource_group'' exGroupIdent)
   \<and> resp_err exExtension = None \<and> \<not> ResponseWasNotFound exExtension
   \<and> ext_ID (resp_value exExtension) = Some exExtensionIdent
   \<and> resourceVirtualMachineScaleSetExtensionCreate exVirtualMachineScaleSetID
         exVirtualMachineScaleSetExtensionID exExpandJson exFlattenJson
         exData exExtension None None exExtension exScaleSet exExtension
       = failed (ForCreate exData) exData
           (ImportAsExistsError ''azurerm_virtual_machine_scale_set_extension'' exExtensionIdent)"
proof -
  have h1: "exParse (rd_String exData ''network_interface_id'') = Inr exParsed \<and>
    resp_err (exNic [exPoolA, exPoolC]) = None \<and>
    nic_Properties (resp_value (exNic [exPoolA, exPoolC])) = Some (exNicProps [exPoolA, exPoolC]) \<and>
    IPConfigurations (exNicProps [exPoolA, exPoolC]) = Some [exIPConfiguration [exPoolA, exPoolC]] \<and>
    exFind (Some [exIPConfiguration [exPoolA, exPoolC]]) (rd_String exData ''ip_configuration_name'')
      = Some (exIPConfiguration [exPoolA, exPoolC]) \<and>
    ipc_Properties (exIPConfiguration [exPoolA, exPoolC])
      = Some \<lparr>LoadBalancerBackendAddressPools = Some [exPoolA, exPoolC]\<rparr> \<and>
    LoadBalancerBackendAddressPools \<lparr>LoadBalancerBackendAddressPools = Some [exPoolA, exPoolC]\<rparr>
      = Some [exPoolA, exPoolC] \<and>
    (\<exists>x\<in>set [exPoolA, exPoolC]. bap_ID x = Some (rd_String exData ''backend_address_pool_id''))"
    by (simp add: ex_defs)
  have h2: "rd_IsNewResource exData \<and> resp_err exGroup = None
      \<and> grp_ID (resp_value exGroup) = Some exGroupIdent \<and> exGroupIdent \<noteq> []"
    by (simp add: exData_def exGroup_def exGroupIdent_def)
  have h3: "exVirtualMachineScaleSetID (rd_String exData ''virtual_machine_scale_set_id'')
       = Inr exScaleSetParsed
     \<and> resp_err exExtension = None \<and> \<not> ResponseWasNotFound exExtension
     \<and> ext_ID (resp_value exExtension) = Some exExtensionIdent"
    by (simp add: exVirtualMachineScaleSetID_def exExtension_def ResponseWasNotFound_def)
  note t = create_existing_conflict [where ParseAzureResourceID = exParse and d = exData
      and ident = exParsed and read = "exNic [exPoolA, exPoolC]"
      and props = "exNicProps [exPoolA, exPoolC]"
      and ipConfigs = "[exIPConfiguration [exPoolA, exPoolC]]"
      and config = "exIPConfiguration [exPoolA, exPoolC]"
      and p = "\<lparr>LoadBalancerBackendAddressPools = Some [exPoolA, exPoolC]\<rparr>"
      and FindNetworkInterfaceIPConfiguration = exFind
      and updateNetworkInterfaceIPConfiguration = exUpdate
      and pools = "[exPoolA, exPoolC]" and put_err = None and wait_err = None
      and reread = "exNic [exPoolA, exPoolC]"
      and existing = exGroup and gid = exGroupIdent and Normalize = id
      and NormalizeNilable = exNormalizeNilable and ResourceGroupID = exResourceGroupID
      and FlattenAndSet = exFlattenAndSet and resp = exGroup and regroup = exGroup
      and VirtualMachineScaleSetID = exVirtualMachineScaleSetID and vid = exScaleSetParsed
      and found = exExtension and eid = exExtensionIdent
      and VirtualMachineScaleSetExtensionID = exVirtualMachineScaleSetExtensionID
      and ExpandJsonFromString = exExpandJson and FlattenJsonToString = exFlattenJson
      and created = exExtension and vmss = exScaleSet and reext = exExtension]
  from t h1 h2 h3 show ?thesis
    by blast
qed

lemma association_id_split_example:
  "strings_Split (associationResourceId exNicId ''ipc'' exPoolIdB) (CHR ''|'')
     = [exNicId @ ''/ipConfigurations/ipc'', exPoolIdB]"
  by (simp add: associationResourceId_def exNicId_def exPoolIdB_def)









text \<open>
  C2, as amended. A Create of the network interface association that reaches the
  submission hands to the remote call the interface whose IP configuration holds the
  former pools with an identifier, in their order, followed by the new pool. A Create of
  an IoT Hub route on a hub that has a routing object submits the former routes with a
  name, in their order, followed by the new route.
\<close>

theorem create_preserves_siblings:
  "(ParseAzureResourceID (rd_String d ''network_interface_id'') = Inr ident \<and>
    resp_err read = None \<and> nic_Properties (resp_value read) = Some props \<and>
    IPConfigurations props = Some ipConfigs \<and>
    FindNetworkInterfaceIPConfiguration (Some ipConfigs) (rd_String d ''ip_configuration_name'')
      = Some config \<and>
    ipc_Properties config = Some p \<and> LoadBalancerBackendAddressPools p = Some pools \<and>
    (\<forall>x\<in>set pools. bap_ID x \<noteq> Some (rd_String d ''backend_address_pool_id'')) \<longrightarrow>
      sent (resourceNetworkInterfaceBackendAddressPoolAssociationCreate ParseAzureResourceID
              FindNetworkInterfaceIPConfiguration updateNetworkInterfaceIPConfiguration
              d read put_err wait_err reread)
        = Some ((resp_value read)\<lparr>nic_Properties :=
            Some (props\<lparr>IPConfigurations :=
              updateNetworkInterfaceIPConfiguration
                (config\<lparr>ipc_Properties :=
                   Some (p\<lparr>LoadBalancerBackendAddressPools :=
                     Some (filter (\<lambda>x. bap_ID x \<noteq> None) pools
                           @ [\<lparr>bap_ID = Some (rd_String d ''backend_address_pool_id''),
                               bap_Name = None\<rparr>])\<rparr>)\<rparr>)
                (Some ipConfigs)\<rparr>)\<rparr>))
 \<and> (rd_IsNewResource d \<and> resp_err iothub = None \<and> hub_ID (resp_value iothub) = Some hubId \<and>
    hub_Properties (resp_value iothub) = Some properties \<and>
    Routing properties = Some routing \<and> Routes routing = Some routes \<and>
    (\<forall>r\<in>set routes. \<not> namedLike EqualFold (rd_String d ''name'') r) \<longrightarrow>
      submittedRoutes (resourceIotHubRouteCreateUpdate ParseAzureResourceID EqualFold d iothub
                         put_err wait_err rehub)
        = Some (filter (\<lambda>r. rt_Name r \<noteq> None) routes
                @ [\<lparr>rt_Name = Some (rd_String d ''name''),
                    rt_Source = rd_String d ''source'',
                    rt_Condition = Some (rd_String d ''condition''),
                    rt_EndpointNames = Some (rd_List d ''endpoint_names''),
                    rt_IsEnabled = Some (rd_Bool d ''enabled'')\<rparr>]))"
proof -
  have a: "ParseAzureResourceID (rd_String d ''network_interface_id'') = Inr ident \<and>
    resp_err read = None \<and> nic_Properties (resp_value read) = Some props \<and>
    IPConfigurations props = Some ipConfigs \<and>
    FindNetworkInterfaceIPConfiguration (Some ipConfigs) (rd_String d ''ip_configuration_name'')
      = Some config \<and>
    ipc_Properties config = Some p \<and> LoadBalancerBackendAddressPools p = Some pools \<and>
    (\<forall>x\<in>set pools. bap_ID x \<noteq> Some (rd_String d ''backend_address_pool_id'')) \<longrightarrow>
      sent (resourceNetworkInterfaceBackendAddressPoolAssociationCreate ParseAzureResourceID
              FindNetworkInterfaceIPConfiguration updateNetworkInterfaceIPConfiguration
              d read put_err wait_err reread)
        = Some ((resp_value read)\<lparr>nic_Properties :=
            Some (props\<lparr>IPConfigurations :=
              updateNetworkInterfaceIPConfiguration
                (config\<lparr>ipc_Properties :=
                   Some (p\<lparr>LoadBalancerBackendAddressPools :=
                     Some (filter (\<lambda>x. bap_ID x \<noteq> None) pools
                           @ [\<lparr>bap_ID = Some (rd_String d ''backend_address_pool_id''),
                               bap_Name = None\<rparr>])\<rparr>)\<rparr>)
                (Some ipConfigs)\<rparr>)\<rparr>)"
    by (simp add: resourceNetworkInterfaceBackendAddressPoolAssociationCreate_def
          appendExistingPools_eq Let_def split: option.splits)
  have b: "rd_IsNewResource d \<and> resp_err iothub = None \<and> hub_ID (resp_value iothub) = Some hubId \<and>
    hub_Properties (resp_value iothub) = Some properties \<and>
    Routing properties = Some routing \<and> Routes routing = Some routes \<and>
    (\<forall>r\<in>set routes. \<not> namedLike EqualFold (rd_String d ''name'') r) \<longrightarrow>
      submittedRoutes (resourceIotHubRouteCreateUpdate ParseAzureResourceID EqualFold d iothub
                         put_err wait_err rehub)
        = Some (filter (\<lambda>r. rt_Name r \<noteq> None) routes
                @ [\<lparr>rt_Name = Some (rd_String d ''name''),
                    rt_Source = rd_String d ''source'',
                    rt_Condition = Some (rd_String d ''condition''),
                    rt_EndpointNames = Some (rd_List d ''endpoint_names''),
                    rt_IsEnabled = Some (rd_Bool d ''enabled'')\<rparr>])"
    by (simp add: resourceIotHubRouteCreateUpdate_def submittedRoutes_def mergeRoutes_new
          ExpandStringSlice_def Let_def split: option.splits)
  from a b show ?thesis by blast
qed

theorem create_preserves_siblings_counterexample:
  "submittedPools ''ipc''
     (resourceNetworkInterfaceBackendAddressPoolAssociationCreate exParse exFind exUpdate exData
        (exNic [exPoolA, exPoolB]) None None (exNic [exPoolB, exPoolC]))
     = Some [exPoolB, exNewPool]
   \<and> [exPoolB, exNewPool] \<noteq> [exPoolA, exPoolB] @ [exNewPool]"
  by (simp add: resourceNetworkInterfaceBackendAddressPoolAssociationCreate_def
      resourceNetworkInterfaceBackendAddressPoolAssociationRead_def ex_defs base_defs)

theorem create_preserves_siblings_witness:
  "bap_ID exPoolA \<noteq> Some (rd_String exData ''backend_address_pool_id'')
   \<and> bap_ID exPoolB \<noteq> Some (rd_String exData ''backend_address_pool_id'')
   \<and> sent (resourceNetworkInterfaceBackendAddressPoolAssociationCreate exParse exFind exUpdate
             exData (exNic [exPoolA, exPoolB]) None None (exNic [exPoolB, exPoolC]))
       = Some ((resp_value (exNic [exPoolA, exPoolB]))\<lparr>nic_Properties :=
            Some ((exNicProps [exPoolA, exPoolB])\<lparr>IPConfigurations :=
              exUpdate
                ((exIPConfiguration [exPoolA, exPoolB])\<lparr>ipc_Properties :=
                   Some (\<lparr>LoadBalancerBackendAddressPools = Some [exPoolA, exPoolB]\<rparr>
                     \<lparr>LoadBalancerBackendAddressPools :=
                       Some (filter (\<lambda>x. bap_ID x \<noteq> None) [exPoolA, exPoolB]
                             @ [\<lparr>bap_ID = Some (rd_String exData ''backend_address_pool_id''),
                                 bap_Name = None\<rparr>])\<rparr>)\<rparr>)
                (Some [exIPConfiguration [exPoolA, exPoolB]])\<rparr>)\<rparr>)
   \<and> \<not> namedLike (=) (rd_String exData ''name'') exRouteA
   \<and> \<not> namedLike (=) (rd_String exData ''name'') exRouteB
   \<and> submittedRoutes (resourceIotHubRouteCreateUpdate exParse (=) exData
                         (exHub [exRouteA, exRouteB]) None None (exHub [exRouteB, exRouteR]))
       = Some (filter (\<lambda>r. rt_Name r \<noteq> None) [exRouteA, exRouteB]
               @ [\<lparr>rt_Name = Some (rd_String exData ''name''),
                   rt_Source = rd_String exData ''source'',
                   rt_Condition = Some (rd_String exData ''condition''),
                   rt_EndpointNames = Some (rd_List exData ''endpoint_names''),
                   rt_IsEnabled = Some (rd_Bool exData ''enabled'')\<rparr>])"
proof -
  have h1: "exParse (rd_String exData ''network_interface_id'') = Inr exParsed \<and>
    resp_err (exNic [exPoolA, exPoolB]) = None \<and>
    nic_Properties (resp_value (exNic [exPoolA, exPoolB])) = Some (exNicProps [exPoolA, exPoolB]) \<and>
    IPConfigurations (exNicProps [exPoolA, exPoolB]) = Some [exIPConfiguration [exPoolA, exPoolB]] \<and>
    exFind (Some [exIPConfiguration [exPoolA, exPoolB]]) (rd_String exData ''ip_configuration_name'')
      = Some (exIPConfiguration [exPoolA, exPoolB]) \<and>
    ipc_Properties (exIPConfiguration [exPoolA, exPoolB])
      = Some \<lparr>LoadBalancerBackendAddressPools = Some [exPoolA, exPoolB]\<rparr> \<and>
    LoadBalancerBackendAddressPools \<lparr>LoadBalancerBackendAddressPools = Some [exPoolA, exPoolB]\<rparr>
      = Some [exPoolA, exPoolB] \<and>
    (\<forall>x\<in>set [exPoolA, exPoolB]. bap_ID x \<noteq> Some (rd_String exData ''backend_address_pool_id''))"
    by (simp add: ex_defs)
  have h2: "rd_IsNewResource exData \<and> resp_err (exHub [exRouteA, exRouteB]) = None \<and>
    hub_ID (resp_value (exHub [exRouteA, exRouteB])) = Some exHubId \<and>
    hub_Properties (resp_value (exHub [exRouteA, exRouteB]))
      = Some \<lparr>Routing = Some (exRouting [exRouteA, exRouteB])\<rparr> \<and>
    Routing \<lparr>Routing = Some (exRouting [exRouteA, exRouteB])\<rparr>
      = Some (exRouting [exRouteA, exRouteB]) \<and>
    Routes (exRouting [exRouteA, exRouteB]) = Some [exRouteA, exRouteB] \<and>
    (\<forall>r\<in>set [exRouteA, exRouteB]. \<not> namedLike (=) (rd_String exData ''name'') r)"
    by (simp add: ex_defs namedLike_def)
  note t = create_preserves_siblings [where ParseAzureResourceID = exParse and d = exData
      and ident = exParsed and read = "exNic [exPoolA, exPoolB]"
      and props = "exNicProps [exPoolA, exPoolB]"
      and ipConfigs = "[exIPConfiguration [exPoolA, exPoolB]]"
      and config = "exIPConfiguration [exPoolA, exPoolB]"
      and p = "\<lparr>LoadBalancerBackendAddressPools = Some [exPoolA, exPoolB]\<rparr>"
      and FindNetworkInterfaceIPConfiguration = exFind
      and updateNetworkInterfaceIPConfiguration = exUpdate
      and pools = "[exPoolA, exPoolB]" and put_err = None and wait_err = None
      and reread = "exNic [exPoolB, exPoolC]"
      and iothub = "exHub [exRouteA, exRouteB]" and hubId = exHubId
      and properties = "\<lparr>Routing = Some (exRouting [exRouteA, exRouteB])\<rparr>"
      and routing = "exRouting [exRouteA, exRouteB]" and routes = "[exRouteA, exRouteB]"
      and EqualFold = "(=)" and rehub = "exHub [exRouteB, exRouteR]"]
  have k1: "bap_ID exPoolA \<noteq> Some (rd_String exData ''backend_address_pool_id'')
      \<and> bap_ID exPoolB \<noteq> Some (rd_String exData ''backend_address_pool_id'')"
    using h1 by simp
  have k2: "\<not> namedLike (=) (rd_String exData ''name'') exRouteA
      \<and> \<not> namedLike (=) (rd_String exData ''name'') exRouteB"
    using h2 by simp
  from t h1 have r1: "sent (resourceNetworkInterfaceBackendAddressPoolAssociationCreate exParse
             exFind exUpdate exData (exNic [exPoolA, exPoolB]) None None (exNic [exPoolB, exPoolC]))
       = Some ((resp_value (exNic [exPoolA, exPoolB]))\<lparr>nic_Properties :=
            Some ((exNicProps [exPoolA, exPoolB])\<lparr>IPConfigurations :=
              exUpdate
                ((exIPConfiguration [exPoolA, exPoolB])\<lparr>ipc_Properties :=
                   Some (\<lparr>LoadBalancerBackendAddressPools = Some [exPoolA, exPoolB]\<rparr>
                     \<lparr>LoadBalancerBackendAddressPools :=
                       Some (filter (\<lambda>x. bap_ID x \<noteq> None) [exPoolA, exPoolB]
                             @ [\<lparr>bap_ID = Some (rd_String exData ''backend_address_pool_id''),
                                 bap_Name = None\<rparr>])\<rparr>)\<rparr>)
                (Some [exIPConfiguration [exPoolA, exPoolB]])\<rparr>)\<rparr>)"
    by blast
  from t h2 have r2: "submittedRoutes (resourceIotHubRouteCreateUpdate exParse (=) exData
                         (exHub [exRouteA, exRouteB]) None None (exHub [exRouteB, exRouteR]))
       = Some (filter (\<lambda>r. rt_Name r \<noteq> None) [exRouteA, exRouteB]
               @ [\<lparr>rt_Name = Some (rd_String exData ''name''),
                   rt_Source = rd_String exData ''source'',
                   rt_Condition = Some (rd_String exData ''condition''),
                   rt_EndpointNames = Some (rd_List exData ''endpoint_names''),
                   rt_IsEnabled = Some (rd_Bool exData ''enabled'')\<rparr>])"
    by blast
  from r1 r2 k1 k2 show ?thesis
    by blast
qed

text \<open>
  C3, as amended. A Delete of the network interface association that reaches the submission
  hands to the remote call the interface whose IP configuration holds, in their order,
  the former pools that have an identifier other than the one of the association. A Delete
  of an IoT Hub route submits, in their order, the former routes that have a name other
  than the one of the route, compared under case folding.
\<close>

theorem delete_removes_target:
  "(parseAssociationId ParseAzureResourceID (rd_Id d)
        = Inr (ipConfigurationName, networkInterfaceName, resourceGroup, backendAddressPoolId) \<and>
    resp_err read = None \<and> nic_Properties (resp_value read) = Some nicProps \<and>
    IPConfigurations nicProps = Some ipConfigs \<and>
    FindNetworkInterfaceIPConfiguration (Some ipConfigs) ipConfigurationName = Some config \<and>
    ipc_Properties config = Some props \<and>
    LoadBalancerBackendAddressPools props = Some backendPools \<longrightarrow>
      sent (resourceNetworkInterfaceBackendAddressPoolAssociationDelete ParseAzureResourceID
              FindNetworkInterfaceIPConfiguration updateNetworkInterfaceIPConfiguration
              d read put_err wait_err)
        = Some ((resp_value read)\<lparr>nic_Properties :=
            Some (nicProps\<lparr>IPConfigurations :=
              updateNetworkInterfaceIPConfiguration
                (config\<lparr>ipc_Properties :=
                   Some (props\<lparr>LoadBalancerBackendAddressPools :=
                     Some (filter (\<lambda>x. bap_ID x \<noteq> None \<and> bap_ID x \<noteq> Some backendAddressPoolId)
                             backendPools)\<rparr>)\<rparr>)
                (Some ipConfigs)\<rparr>)\<rparr>))
 \<and> (ParseAzureResourceID (rd_Id d) = Inr ident \<and> resp_err iothub = None \<and>
    hub_Properties (resp_value iothub) = Some properties \<and>
    Routing properties = Some routing \<and> Routes routing = Some routes \<longrightarrow>
      submittedRoutes (resourceIotHubRouteDelete ParseAzureResourceID EqualFold d iothub
                         put_err wait_err)
        = Some (filter (\<lambda>r. rt_Name r \<noteq> None \<and> \<not> namedLike EqualFold (PathAt ident ''Routes'') r)
                  routes))"
proof -
  have a: "parseAssociationId ParseAzureResourceID (rd_Id d)
        = Inr (ipConfigurationName, networkInterfaceName, resourceGroup, backendAddressPoolId) \<and>
    resp_err read = None \<and> nic_Properties (resp_value read) = Some nicProps \<and>
    IPConfigurations nicProps = Some ipConfigs \<and>
    FindNetworkInterfaceIPConfiguration (Some ipConfigs) ipConfigurationName = Some config \<and>
    ipc_Properties config = Some props \<and>
    LoadBalancerBackendAddressPools props = Some backendPools \<longrightarrow>
      sent (resourceNetworkInterfaceBackendAddressPoolAssociationDelete ParseAzureResourceID
              FindNetworkInterfaceIPConfiguration updateNetworkInterfaceIPConfiguration
              d read put_err wait_err)
        = Some ((resp_value read)\<lparr>nic_Properties :=
            Some (nicProps\<lparr>IPConfigurations :=
              updateNetworkInterfaceIPConfiguration
                (config\<lparr>ipc_Properties :=
                   Some (props\<lparr>LoadBalancerBackendAddressPools :=
                     Some (filter (\<lambda>x. bap_ID x \<noteq> None \<and> bap_ID x \<noteq> Some backendAddressPoolId)
                             backendPools)\<rparr>)\<rparr>)
                (Some ipConfigs)\<rparr>)\<rparr>)"
    by (simp add: resourceNetworkInterfaceBackendAddressPoolAssociationDelete_def
          retainOtherPools_eq Let_def split: option.splits)
  have b: "ParseAzureResourceID (rd_Id d) = Inr ident \<and> resp_err iothub = None \<and>
    hub_Properties (resp_value iothub) = Some properties \<and>
    Routing properties = Some routing \<and> Routes routing = Some routes \<longrightarrow>
      submittedRoutes (resourceIotHubRouteDelete ParseAzureResourceID EqualFold d iothub
                         put_err wait_err)
        = Some (filter (\<lambda>r. rt_Name r \<noteq> None \<and> \<not> namedLike EqualFold (PathAt ident ''Routes'') r)
                  routes)"
    by (simp add: resourceIotHubRouteDelete_def submittedRoutes_def retainOtherRoutes_eq
          Let_def split: option.splits)
  from a b show ?thesis by blast
qed

theorem delete_removes_target_counterexample:
  "submittedPools ''ipc''
     (resourceNetworkInterfaceBackendAddressPoolAssociationDelete exParse exFind exUpdate
        exAssociationData (exNic [exPoolA, exPoolB, exPoolC]) None None)
     = Some [exPoolC]
   \<and> [exPoolC] \<noteq> filter (\<lambda>x. bap_ID x \<noteq> Some exPoolIdB) [exPoolA, exPoolB, exPoolC]"
  using association_id_split_example
  by (simp add: resourceNetworkInterfaceBackendAddressPoolAssociationDelete_def
      parseAssociationId_def exAssociationData_def ex_defs base_defs)

theorem delete_removes_target_witness:
  "sent (resourceNetworkInterfaceBackendAddressPoolAssociationDelete exParse exFind exUpdate
           exAssociationData (exNic [exPoolA, exPoolB, exPoolC]) None None)
       = Some ((resp_value (exNic [exPoolA, exPoolB, exPoolC]))\<lparr>nic_Properties :=
            Some ((exNicProps [exPoolA, exPoolB, exPoolC])\<lparr>IPConfigurations :=
              exUpdate
                ((exIPConfiguration [exPoolA, exPoolB, exPoolC])\<lparr>ipc_Properties :=
                   Some (\<lparr>LoadBalancerBackendAddressPools = Some [exPoolA, exPoolB, exPoolC]\<rparr>
                     \<lparr>LoadBalancerBackendAddressPools :=
                       Some (filter (\<lambda>x. bap_ID x \<noteq> None \<and> bap_ID x \<noteq> Some exPoolIdB)
                               [exPoolA, exPoolB, exPoolC])\<rparr>)\<rparr>)
                (Some [exIPConfiguration [exPoolA, exPoolB, exPoolC]])\<rparr>)\<rparr>)
   \<and> submittedRoutes (resourceIotHubRouteDelete exParse (=) exRouteData
                         (exHub [exRouteA, exRouteB, exRouteR]) None None)
       = Some (filter (\<lambda>r. rt_Name r \<noteq> None \<and> \<not> namedLike (=) (PathAt exParsed ''Routes'') r)
                 [exRouteA, exRouteB, exRouteR])"
proof -
  have h1: "parseAssociationId exParse (rd_Id exAssociationData)
        = Inr (''ipc'', ''n'', ''g'', exPoolIdB) \<and>
    resp_err (exNic [exPoolA, exPoolB, exPoolC]) = None \<and>
    nic_Properties (resp_value (exNic [exPoolA, exPoolB, exPoolC]))
      = Some (exNicProps [exPoolA, exPoolB, exPoolC]) \<and>
    IPConfigurations (exNicProps [exPoolA, exPoolB, exPoolC])
      = Some [exIPConfiguration [exPoolA, exPoolB, exPoolC]] \<and>
    exFind (Some [exIPConfiguration [exPoolA, exPoolB, exPoolC]]) ''ipc''
      = Some (exIPConfiguration [exPoolA, exPoolB, exPoolC]) \<and>
    ipc_Properties (exIPConfiguration [exPoolA, exPoolB, exPoolC])
      = Some \<lparr>LoadBalancerBackendAddressPools = Some [exPoolA, exPoolB, exPoolC]\<rparr> \<and>
    LoadBalancerBackendAddressPools
        \<lparr>LoadBalancerBackendAddressPools = Some [exPoolA, exPoolB, exPoolC]\<rparr>
      = Some [exPoolA, exPoolB, exPoolC]"
    using association_id_split_example
    by (simp add: parseAssociationId_def exAssociationData_def exParse_def exParsed_def PathAt_def
          exNic_def exNicProps_def exIPConfiguration_def exFind_def)
  have h2: "exParse (rd_Id exRouteData) = Inr exParsed \<and>
    resp_err (exHub [exRouteA, exRouteB, exRouteR]) = None \<and>
    hub_Properties (resp_value (exHub [exRouteA, exRouteB, exRouteR]))
      = Some \<lparr>Routing = Some (exRouting [exRouteA, exRouteB, exRouteR])\<rparr> \<and>
    Routing \<lparr>Routing = Some (exRouting [exRouteA, exRouteB, exRouteR])\<rparr>
      = Some (exRouting [exRouteA, exRouteB, exRouteR]) \<and>
    Routes (exRouting [exRouteA, exRouteB, exRouteR]) = Some [exRouteA, exRouteB, exRouteR]"
    by (simp add: exParse_def exHub_def exRouting_def)
  note t = delete_removes_target [where ParseAzureResourceID = exParse
      and d = exAssociationData and ipConfigurationName = "''ipc''"
      and networkInterfaceName = "''n''" and resourceGroup = "''g''"
      and backendAddressPoolId = exPoolIdB and read = "exNic [exPoolA, exPoolB, exPoolC]"
      and nicProps = "exNicProps [exPoolA, exPoolB, exPoolC]"
      and ipConfigs = "[exIPConfiguration [exPoolA, exPoolB, exPoolC]]"
      and config = "exIPConfiguration [exPoolA, exPoolB, exPoolC]"
      and props = "\<lparr>LoadBalancerBackendAddressPools = Some [exPoolA, exPoolB, exPoolC]\<rparr>"
      and backendPools = "[exPoolA, exPoolB, exPoolC]"
      and FindNetworkInterfaceIPConfiguration = exFind
      and updateNetworkInterfaceIPConfiguration = exUpdate
      and put_err = None and wait_err = None]
  note u = delete_removes_target [where ParseAzureResourceID = exParse
      and d = exRouteData and ident = exParsed and iothub = "exHub [exRouteA, exRouteB, exRouteR]"
      and properties = "\<lparr>Routing = Some (exRouting [exRouteA, exRouteB, exRouteR])\<rparr>"
      and routing = "exRouting [exRouteA, exRouteB, exRouteR]"
      and routes = "[exRouteA, exRouteB, exRouteR]" and EqualFold = "(=)"
      and put_err = None and wait_err = None]
  from t h1 have r1: "sent (resourceNetworkInterfaceBackendAddressPoolAssociationDelete exParse
           exFind exUpdate exAssociationData (exNic [exPoolA, exPoolB, exPoolC]) None None)
       = Some ((resp_value (exNic [exPoolA, exPoolB, exPoolC]))\<lparr>nic_Properties :=
            Some ((exNicProps [exPoolA, exPoolB, exPoolC])\<lparr>IPConfigurations :=
              exUpdate
                ((exIPConfiguration [exPoolA, exPoolB, exPoolC])\<lparr>ipc_Properties :=
                   Some (\<lparr>LoadBalancerBackendAddressPools = Some [exPoolA, exPoolB, exPoolC]\<rparr>
                     \<lparr>LoadBalancerBackendAddressPools :=
                       Some (filter (\<lambda>x. bap_ID x \<noteq> None \<and> bap_ID x \<noteq> Some exPoolIdB)
                               [exPoolA, exPoolB, exPoolC])\<rparr>)\<rparr>)
                (Some [exIPConfiguration [exPoolA, exPoolB, exPoolC]])\<rparr>)\<rparr>)"
    by blast
  from u h2 have r2: "submittedRoutes (resourceIotHubRouteDelete exParse (=) exRouteData
                         (exHub [exRouteA, exRouteB, exRouteR]) None None)
       = Some (filter (\<lambda>r. rt_Name r \<noteq> None \<and> \<not> namedLike (=) (PathAt exParsed ''Routes'') r)
                 [exRouteA, exRouteB, exRouteR])"
    by blast
  from r1 r2 show ?thesis by blast
qed



end
